theory Spec2Isabelle
  imports Complex_Main "HOL-Library.Word" "HOL-Library.Log_Nat"
begin

unbundle bit_operations_syntax

section \<open>chronytime: a TrueTime-style interval clock on top of the Chrony daemon\<close>

text \<open>
  The sources hold three texts of the package. They are told apart by a suffix:
  \<^item> \<open>_A\<close>: \<^verbatim>\<open>src/chronytime.go\<close>, lines 1-319 (sequence number from \<^verbatim>\<open>math/rand\<close>,
    \<^verbatim>\<open>ConsistentOperation\<close> with a goroutine);
  \<^item> \<open>_B\<close>: \<^verbatim>\<open>src/chronytime.go\<close>, lines 320-642 (sequence number from \<^verbatim>\<open>crypto/rand\<close>,
    a read loop in \<^verbatim>\<open>trackingRequest\<close>, sequential \<^verbatim>\<open>ConsistentOperation\<close>);
  \<^item> \<open>_C\<close>: \<^verbatim>\<open>src/unnamed/part_000\<close>, lines 163-455 (\<^verbatim>\<open>Get\<close>, \<^verbatim>\<open>Earliest\<close>,
    \<^verbatim>\<open>WaitUntilAfter\<close> with a context).
  What the texts share word for word (the compact float, the request, the response
  header, \<^verbatim>\<open>uncertainty\<close> of texts A and B) carries no suffix, nor does what only one
  text has (\<^verbatim>\<open>uncertaintyFromCorrectedTime\<close>, \<^verbatim>\<open>Get\<close> and \<^verbatim>\<open>Earliest\<close> of text C).
\<close>

subsection \<open>Wire data\<close>

type_synonym byte = "8 word"

text \<open>Big-endian on the wire (\<^verbatim>\<open>networkOrder = binary.BigEndian\<close>).\<close>

definition be16_bytes :: "16 word \<Rightarrow> byte list" where
  "be16_bytes v = [ucast (drop_bit 8 v), ucast v]"

definition be32_bytes :: "32 word \<Rightarrow> byte list" where
  "be32_bytes v = [ucast (drop_bit 24 v), ucast (drop_bit 16 v), ucast (drop_bit 8 v), ucast v]"

definition be16 :: "byte list \<Rightarrow> nat \<Rightarrow> 16 word" where
  "be16 bs off = push_bit 8 (ucast (bs ! off)) OR ucast (bs ! (off + 1))"

definition be32 :: "byte list \<Rightarrow> nat \<Rightarrow> 32 word" where
  "be32 bs off =
     push_bit 24 (ucast (bs ! off)) OR push_bit 16 (ucast (bs ! (off + 1)))
       OR push_bit 8 (ucast (bs ! (off + 2))) OR ucast (bs ! (off + 3))"

definition pktTypeCmdRequest :: byte where "pktTypeCmdRequest = 1"
definition pktTypeCmdReply :: byte where "pktTypeCmdReply = 2"
definition cmdTracking :: "16 word" where "cmdTracking = 33"
definition rpyTracking :: "16 word" where "rpyTracking = 5"
definition sttSuccess :: "16 word" where "sttSuccess = 0"

subsection \<open>The compact float\<close>

text \<open>
  \<^verbatim>\<open>cfloat.value\<close>. The field \<^verbatim>\<open>F int32\<close> is the 32-bit word as read from the wire;
  \<^verbatim>\<open>uint32(f.F)\<close> keeps its bits. \<^verbatim>\<open>exp\<close> and \<^verbatim>\<open>coef\<close> are \<^verbatim>\<open>int32\<close> in the source; their
  values stay within \<open>-153 .. 127\<close> and \<open>-2^24 .. 2^25 - 1\<close>, so no \<^verbatim>\<open>int32\<close> operation
  wraps and they are integers here. The result is a \<^verbatim>\<open>float64\<close>; the model computes
  it in the reals. Nothing is lost by that: the coefficient has at most 25 significant
  bits and the exponent lies in \<open>-89 .. 38\<close>, so the product is a \<^verbatim>\<open>float64\<close> exactly
  (lemma \<open>cfloat_value_representable\<close>).
\<close>

definition cfloatExpBits :: nat where "cfloatExpBits = 7"
definition cfloatCoefBits :: nat where "cfloatCoefBits = 4 * 8 - cfloatExpBits"

definition cfloat_exp :: "32 word \<Rightarrow> int" where
  "cfloat_exp x =
     (let exp = uint (drop_bit cfloatCoefBits x);
          exp = (if exp \<ge> 2 ^ (cfloatExpBits - 1) then exp - 2 ^ cfloatExpBits else exp)
      in exp - int cfloatCoefBits)"

definition cfloat_coef :: "32 word \<Rightarrow> int" where
  "cfloat_coef x =
     (let coef = uint (x mod 2 ^ cfloatCoefBits)
      in if coef \<ge> 2 ^ (cfloatCoefBits - 1) then coef - 2 ^ cfloatCoefBits else coef)"

definition cfloat_value :: "32 word \<Rightarrow> real" where
  "cfloat_value F = real_of_int (cfloat_coef F) * 2 powi (cfloat_exp F)"

text \<open>
  The decoding in the words of the specification: the top 7 bits and the low 25 bits, each
  sign-extended from its own width, and 25 taken off the exponent.
\<close>

definition spec_cfloat_value :: "32 word \<Rightarrow> real" where
  "spec_cfloat_value w =
     real_of_int (signed_take_bit 24 (uint w))
       * 2 powi (signed_take_bit 6 (uint (drop_bit 25 w)) - 25)"

subsection \<open>The request\<close>

record request =
  version :: byte
  pktType :: byte
  res1 :: byte
  res2 :: byte
  command :: "16 word"
  attempt :: "16 word"
  sequence :: "32 word"
  pad1 :: "byte list"
  pad2 :: "byte list"
  padding :: "byte list"

text \<open>
  The composite literal in \<^verbatim>\<open>trackingRequest\<close>: the fields it does not name are zero, the
  three arrays have their declared lengths 8, 93 and 396. (In text B the sequence is a
  \<^verbatim>\<open>[4]byte\<close> filled by \<^verbatim>\<open>rand.Read\<close>; on the wire that is the same four bytes.)
\<close>

definition new_request :: "32 word \<Rightarrow> request" where
  "new_request s =
     \<lparr>version = 6, pktType = pktTypeCmdRequest, res1 = 0, res2 = 0,
      command = cmdTracking, attempt = 0, sequence = s,
      pad1 = replicate 8 0, pad2 = replicate 93 0, padding = replicate 396 0\<rparr>"

text \<open>
  What \<^verbatim>\<open>binary.Write(c.conn, networkOrder, r)\<close> hands to the socket: the fields in
  declaration order, without alignment padding.
\<close>

definition encode_request :: "request \<Rightarrow> byte list" where
  "encode_request r =
     [version r, pktType r, res1 r, res2 r] @ be16_bytes (command r) @ be16_bytes (attempt r)
       @ be32_bytes (sequence r) @ pad1 r @ pad2 r @ padding r"

subsection \<open>The response\<close>

record timeSpec =
  SecHigh :: "32 word"
  SecLow :: "32 word"
  Nsec :: "32 word"

text \<open>The field \<^verbatim>\<open>Addr\<close> of \<^verbatim>\<open>ipAddr\<close> is \<open>Addr\<close>; the field \<^verbatim>\<open>Addr\<close> of
  \<^verbatim>\<open>trackingResponse\<close> is \<open>Addr_ip\<close>.\<close>

record ipAddr =
  Addr :: "byte list"
  Family :: "16 word"
  Padding :: "16 word"

text \<open>A \<^verbatim>\<open>cfloat\<close> field is its only member \<^verbatim>\<open>F\<close>, a 32-bit word.\<close>

record trackingResponse =
  RefID :: "32 word"
  Addr_ip :: ipAddr
  Stratum :: "16 word"
  LeapStatus :: "16 word"
  RefTime :: timeSpec
  CurrentCorrection :: "32 word"
  LastOffset :: "32 word"
  RmsOffset :: "32 word"
  FreqPPM :: "32 word"
  ResidFreqPPM :: "32 word"
  SkewPPM :: "32 word"
  RootDelay :: "32 word"
  RootDispersion :: "32 word"
  LastUpdateInterval :: "32 word"

text \<open>Text B carries one more field at the end.\<close>

record trackingResponse_B = trackingResponse +
  EOR :: "32 word"

record 't response =
  Version :: byte
  PktType :: byte
  Res1 :: byte
  Res2 :: byte
  Command :: "16 word"
  Reply :: "16 word"
  Status :: "16 word"
  Pad1 :: "16 word"
  Pad2 :: "16 word"
  Pad3 :: "16 word"
  Sequence :: "32 word"
  Pad4 :: "32 word"
  Pad5 :: "32 word"
  Tracking :: 't

text \<open>\<^verbatim>\<open>sameUDPAddr\<close> and the library's \<^verbatim>\<open>net.IP.Equal\<close>, which takes an IPv4 address
  and its 16-byte IPv6 form to be equal.\<close>

record UDPAddr =
  IP :: "byte list"
  Port :: int
  Zone :: string

definition v4InV6Prefix :: "byte list" where
  "v4InV6Prefix = [0, 0, 0, 0, 0, 0, 0, 0, 0, 0, 0xff, 0xff]"

definition IP_Equal :: "byte list \<Rightarrow> byte list \<Rightarrow> bool" where
  "IP_Equal ip x =
     (if length ip = length x then ip = x
      else if length ip = 4 \<and> length x = 16 then take 12 x = v4InV6Prefix \<and> ip = drop 12 x
      else if length ip = 16 \<and> length x = 4 then take 12 ip = v4InV6Prefix \<and> drop 12 ip = x
      else False)"

definition sameUDPAddr :: "UDPAddr \<Rightarrow> UDPAddr \<Rightarrow> bool" where
  "sameUDPAddr a1 a2 =
     (if IP_Equal (IP a1) (IP a2) \<and> Port a1 = Port a2 \<and> Zone a1 = Zone a2 then True else False)"

record Client =
  addr :: UDPAddr

subsection \<open>Errors\<close>

text \<open>
  Every error value the package makes or passes on. \<open>ConnError\<close> is an error of the
  socket (a failed write, an expired deadline); \<open>NilDereference\<close> is the run-time panic
  of \<^verbatim>\<open>*addr\<close> on a nil address; \<open>OtherError\<close> is an error of the caller's own
  (\<^verbatim>\<open>prepare\<close>, \<^verbatim>\<open>commit\<close>).
\<close>

datatype error =
    EmptyRead
  | ShortRead nat nat
  | UnexpectedPeer UDPAddr UDPAddr
  | UnexpectedSequence "32 word" "32 word"
  | ConnError string
  | UnexpectedEOF
  | NilDereference
  | ContextCanceled
  | OtherError string

text \<open>A loop of the source can go on forever. Its model runs a bounded number of rounds
  and says \<open>Running\<close> when the bound is reached with the loop still going.\<close>

datatype 'a outcome = Returned 'a | Running

subsection \<open>Decoding\<close>

definition decode_tracking :: "byte list \<Rightarrow> nat \<Rightarrow> trackingResponse" where
  "decode_tracking bs off =
     \<lparr>RefID = be32 bs off,
      Addr_ip = \<lparr>Addr = take 16 (drop (off + 4) bs), Family = be16 bs (off + 20),
                 Padding = be16 bs (off + 22)\<rparr>,
      Stratum = be16 bs (off + 24),
      LeapStatus = be16 bs (off + 26),
      RefTime = \<lparr>SecHigh = be32 bs (off + 28), SecLow = be32 bs (off + 32),
                 Nsec = be32 bs (off + 36)\<rparr>,
      CurrentCorrection = be32 bs (off + 40),
      LastOffset = be32 bs (off + 44),
      RmsOffset = be32 bs (off + 48),
      FreqPPM = be32 bs (off + 52),
      ResidFreqPPM = be32 bs (off + 56),
      SkewPPM = be32 bs (off + 60),
      RootDelay = be32 bs (off + 64),
      RootDispersion = be32 bs (off + 68),
      LastUpdateInterval = be32 bs (off + 72)\<rparr>"

definition decode_header :: "byte list \<Rightarrow> 't \<Rightarrow> 't response" where
  "decode_header bs tr =
     \<lparr>Version = bs ! 0, PktType = bs ! 1, Res1 = bs ! 2, Res2 = bs ! 3,
      Command = be16 bs 4, Reply = be16 bs 6, Status = be16 bs 8,
      Pad1 = be16 bs 10, Pad2 = be16 bs 12, Pad3 = be16 bs 14,
      Sequence = be32 bs 16, Pad4 = be32 bs 20, Pad5 = be32 bs 24,
      Tracking = tr\<rparr>"

text \<open>\<^verbatim>\<open>binary.Size(response{})\<close>: 28 bytes of header and 76 of tracking data; 4 more
  in text B.\<close>

definition responseBinarySize :: nat where
  "responseBinarySize = 104"

definition responseBinarySize_B :: nat where
  "responseBinarySize_B = 108"

text \<open>\<^verbatim>\<open>binary.Read(reader, networkOrder, rep)\<close>: fails when the reader holds fewer bytes
  than the structure takes, ignores what follows them.\<close>

definition binary_Read :: "byte list \<Rightarrow> error + trackingResponse response" where
  "binary_Read bs =
     (if length bs < responseBinarySize then Inl UnexpectedEOF
      else Inr (decode_header bs (decode_tracking bs 28)))"

definition binary_Read_B :: "byte list \<Rightarrow> error + trackingResponse_B response" where
  "binary_Read_B bs =
     (if length bs < responseBinarySize_B then Inl UnexpectedEOF
      else Inr (decode_header bs (trackingResponse.extend (decode_tracking bs 28)
                  (trackingResponse_B.fields (be32 bs 104)))))"

subsection \<open>Time\<close>

text \<open>
  A \<^verbatim>\<open>time.Time\<close> is an instant in nanoseconds since the Unix epoch (the monotonic
  reading is left out); a \<^verbatim>\<open>time.Duration\<close> is an \<^verbatim>\<open>int64\<close> of nanoseconds, here an
  integer kept in range by \<open>int64_wrap\<close> wherever the source computes one.
\<close>

definition int64_wrap :: "int \<Rightarrow> int" where
  "int64_wrap i = signed_take_bit 63 i"

definition minDuration :: int where "minDuration = - (2 ^ 63)"
definition maxDuration :: int where "maxDuration = 2 ^ 63 - 1"
definition time_Second :: int where "time_Second = 1000000000"

text \<open>\<^verbatim>\<open>time.Time{}\<close>: 1 January of year 1, 00:00:00 UTC.\<close>

definition Time_zero :: int where
  "Time_zero = - 62135596800 * 1000000000"

definition Time_Add :: "int \<Rightarrow> int \<Rightarrow> int" where
  "Time_Add t d = t + d"

definition Time_Sub :: "int \<Rightarrow> int \<Rightarrow> int" where
  "Time_Sub t u =
     (if minDuration \<le> t - u \<and> t - u \<le> maxDuration then t - u
      else if t < u then minDuration else maxDuration)"

definition Time_After :: "int \<Rightarrow> int \<Rightarrow> bool" where
  "Time_After t u = (t > u)"

text \<open>
  The conversion \<^verbatim>\<open>time.Duration(x)\<close> of a \<^verbatim>\<open>float64\<close>: the fraction is dropped. Where
  the result does not fit an \<^verbatim>\<open>int64\<close> the language leaves the value to the
  implementation; the model takes the one of the amd64 compiler.
\<close>

definition float_trunc :: "real \<Rightarrow> int" where
  "float_trunc x = (if x \<ge> 0 then \<lfloor>x\<rfloor> else \<lceil>x\<rceil>)"

definition Duration_of_float :: "real \<Rightarrow> int" where
  "Duration_of_float x =
     (if minDuration \<le> float_trunc x \<and> float_trunc x \<le> maxDuration then float_trunc x
      else minDuration)"

subsection \<open>\<^verbatim>\<open>float64\<close> arithmetic\<close>

text \<open>
  An operation on \<^verbatim>\<open>float64\<close> values returns the exact result rounded to the nearest
  number of 53 significant bits, a tie going to the one whose last bit is zero.
  \<open>float64 x\<close> is that rounding of the real number \<open>x\<close>; \<open>float_exponent x\<close> is the
  exponent of the power of two at or next below the size of \<open>x\<close>. Overflow and subnormal
  numbers are left out: what the package computes with is zero or lies between \<open>2^-90\<close>
  and \<open>2^94\<close> in size.
\<close>

definition round_half_even :: "real \<Rightarrow> int" where
  "round_half_even x =
     (let f = \<lfloor>x\<rfloor>; d = x - of_int f
      in if d < 1 / 2 then f else if 1 / 2 < d then f + 1 else if even f then f else f + 1)"

definition float_exponent :: "real \<Rightarrow> int" where
  "float_exponent x =
     (if 1 \<le> \<bar>x\<bar> then bitlen \<lfloor>\<bar>x\<bar>\<rfloor> - 1 else - bitlen (\<lceil>1 / \<bar>x\<bar>\<rceil> - 1))"

definition float64 :: "real \<Rightarrow> real" where
  "float64 x =
     (if x = 0 then 0
      else (let u = 2 powi (float_exponent x - 52)
            in of_int (round_half_even (x / u)) * u))"

subsection \<open>The uncertainty\<close>

text \<open>
  \<^verbatim>\<open>uncertainty\<close> (texts A and B) and \<^verbatim>\<open>uncertaintyFromCorrectedTime\<close> (text C). Every
  sum and product of \<^verbatim>\<open>float64\<close> values is rounded, in the order in which the source
  computes them; \<^verbatim>\<open>math.Abs\<close> and \<^verbatim>\<open>math.Pow(10, 9)\<close> are exact.
\<close>

definition uncertainty :: "'a trackingResponse_scheme \<Rightarrow> int" where
  "uncertainty r =
     (let correction = cfloat_value (CurrentCorrection r);
          rootDelay = cfloat_value (RootDelay r);
          rootDispersion = cfloat_value (RootDispersion r);
          s = float64 (float64 (\<bar>correction\<bar> + rootDispersion) + float64 (0.5 * rootDelay))
      in int64_wrap (Duration_of_float s * time_Second))"

definition uncertaintyFromCorrectedTime :: "'a trackingResponse_scheme \<Rightarrow> int" where
  "uncertaintyFromCorrectedTime r =
     (let rootDelay = cfloat_value (RootDelay r);
          rootDispersion = cfloat_value (RootDispersion r);
          s = float64 (rootDispersion + float64 (0.5 * rootDelay));
          ns = float64 (s * 10 ^ 9)
      in Duration_of_float ns)"

subsection \<open>The world outside the program\<close>

text \<open>
  A reading of the interval clock (\<^verbatim>\<open>Response\<close>, text C).
\<close>

record Response =
  Now :: int
  Uncertainty :: int
  uncorrectedNow :: int
  correction :: int

text \<open>
  What \<^verbatim>\<open>ReadFromUDP\<close> finds on the socket: a datagram with its sender, or a failure
  (the deadline passed, the socket was closed) with no byte read and no address.
\<close>

datatype recv = Datagram UDPAddr "byte list" | ReadFail string

text \<open>
  What the client did, in order: \<open>Sent\<close> a datagram handed to the socket, \<open>Deadline\<close>
  an instant given to \<^verbatim>\<open>SetDeadline\<close>, \<open>Obtained\<close> a reading returned by \<^verbatim>\<open>Get\<close>,
  \<open>Slept\<close> a \<^verbatim>\<open>time.Sleep\<close>, \<open>Waited d b\<close> a \<^verbatim>\<open>select\<close> on \<^verbatim>\<open>time.After(d)\<close> and
  \<^verbatim>\<open>ctx.Done()\<close> where \<open>b\<close> says that \<^verbatim>\<open>ctx.Done()\<close> was taken, \<open>Go_WaitUntilAfter\<close> the
  start of the goroutine of text A that runs \<^verbatim>\<open>c.WaitUntilAfter(t)\<close>.
\<close>

datatype event =
    Sent "byte list"
  | Deadline int
  | Obtained Response
  | Slept int
  | Waited int bool
  | Go_WaitUntilAfter int

text \<open>
  The surroundings are scripts the program reads from, one entry per call: the random
  source, the clock, the outcome of each write and of each read on the socket, and which
  channel each \<^verbatim>\<open>select\<close> takes. The program cannot tell such a script from the real
  thing; what it does is added to \<open>trace\<close>.
\<close>

record world =
  rand_src :: "nat \<Rightarrow> 32 word"
  rand_n :: nat
  clock_src :: "nat \<Rightarrow> int"
  clock_n :: nat
  write_src :: "nat \<Rightarrow> string option"
  write_n :: nat
  read_src :: "nat \<Rightarrow> recv"
  read_n :: nat
  select_src :: "nat \<Rightarrow> bool"
  select_n :: nat
  trace :: "event list"

definition rand_Uint32 :: "world \<Rightarrow> 32 word \<times> world" where
  "rand_Uint32 w = (rand_src w (rand_n w), w\<lparr>rand_n := Suc (rand_n w)\<rparr>)"

definition time_Now :: "world \<Rightarrow> int \<times> world" where
  "time_Now w = (clock_src w (clock_n w), w\<lparr>clock_n := Suc (clock_n w)\<rparr>)"

definition conn_Write :: "byte list \<Rightarrow> world \<Rightarrow> string option \<times> world" where
  "conn_Write bs w =
     (write_src w (write_n w), w\<lparr>write_n := Suc (write_n w), trace := trace w @ [Sent bs]\<rparr>)"

definition conn_SetDeadline :: "int \<Rightarrow> world \<Rightarrow> world" where
  "conn_SetDeadline t w = w\<lparr>trace := trace w @ [Deadline t]\<rparr>"

text \<open>\<^verbatim>\<open>n, addr, err := c.conn.ReadFromUDP(buffer)\<close>: the datagram is cut to the length of
  the buffer and laid over its beginning.\<close>

definition conn_ReadFromUDP ::
  "byte list \<Rightarrow> world \<Rightarrow> (nat \<times> UDPAddr option \<times> string option \<times> byte list) \<times> world" where
  "conn_ReadFromUDP buffer w =
     (case read_src w (read_n w) of
        Datagram a d \<Rightarrow>
          (let n = min (length d) (length buffer)
           in (n, Some a, None, take n d @ drop n buffer))
      | ReadFail e \<Rightarrow> (0, None, Some e, buffer),
      w\<lparr>read_n := Suc (read_n w)\<rparr>)"

definition time_Sleep :: "int \<Rightarrow> world \<Rightarrow> world" where
  "time_Sleep d w = w\<lparr>trace := trace w @ [Slept d]\<rparr>"

definition select_After_Done :: "int \<Rightarrow> world \<Rightarrow> bool \<times> world" where
  "select_After_Done d w =
     (select_src w (select_n w),
      w\<lparr>select_n := Suc (select_n w), trace := trace w @ [Waited d (select_src w (select_n w))]\<rparr>)"

definition go_WaitUntilAfter :: "int \<Rightarrow> world \<Rightarrow> world" where
  "go_WaitUntilAfter t w = w\<lparr>trace := trace w @ [Go_WaitUntilAfter t]\<rparr>"

subsection \<open>The transport: \<^verbatim>\<open>trackingRequest\<close>\<close>

definition trackingRequest_A :: "Client \<Rightarrow> world \<Rightarrow> (error + trackingResponse response) \<times> world" where
  "trackingRequest_A c w =
     (case rand_Uint32 w of (s, w) \<Rightarrow>
       (let r = new_request s in
        (case conn_Write (encode_request r) w of
           (Some e, w) \<Rightarrow> (Inl (ConnError e), w)
         | (None, w) \<Rightarrow>
            (let buffer = replicate 1024 0 in
             (case time_Now w of (now, w) \<Rightarrow>
               (let w = conn_SetDeadline (Time_Add now (1 * time_Second)) w in
                (case conn_ReadFromUDP buffer w of ((n, a, err, buffer), w) \<Rightarrow>
                   if n = 0 then (Inl EmptyRead, w)
                   else (case a of
                           None \<Rightarrow> (Inl NilDereference, w)
                         | Some a \<Rightarrow>
                             if \<not> sameUDPAddr a (addr c) then (Inl (UnexpectedPeer (addr c) a), w)
                             else (case err of
                                     Some e \<Rightarrow> (Inl (ConnError e), w)
                                   | None \<Rightarrow>
                                      (case binary_Read buffer of
                                         Inl e \<Rightarrow> (Inl e, w)
                                       | Inr rep \<Rightarrow>
                                           if Sequence rep \<noteq> sequence r
                                           then (Inl (UnexpectedSequence (sequence r) (Sequence rep)), w)
                                           else (Inr rep, w)))))))))))"

text \<open>Text B: the read is in a loop that goes round again on a datagram of another
  sender; the sequence number of the reply is not looked at.\<close>

fun read_loop_B :: "nat \<Rightarrow> Client \<Rightarrow> byte list \<Rightarrow> world \<Rightarrow> (error + byte list) outcome \<times> world" where
  "read_loop_B 0 c buffer w = (Running, w)"
| "read_loop_B (Suc k) c buffer w =
     (case time_Now w of (now, w) \<Rightarrow>
       (let w = conn_SetDeadline (Time_Add now (1 * time_Second)) w in
        (case conn_ReadFromUDP buffer w of ((n, a, err, buffer), w) \<Rightarrow>
           if n = 0 then (Returned (Inl EmptyRead), w)
           else (case a of
                   None \<Rightarrow> (Returned (Inl NilDereference), w)
                 | Some a \<Rightarrow>
                     if \<not> sameUDPAddr a (addr c) then read_loop_B k c buffer w
                     else (case err of
                             Some e \<Rightarrow> (Returned (Inl (ConnError e)), w)
                           | None \<Rightarrow> (Returned (Inr buffer), w))))))"

definition trackingRequest_B ::
  "nat \<Rightarrow> Client \<Rightarrow> world \<Rightarrow> (error + trackingResponse_B response) outcome \<times> world" where
  "trackingRequest_B k c w =
     (let r = new_request 0 in
      (case rand_Uint32 w of (s, w) \<Rightarrow>
        (let r = r\<lparr>sequence := s\<rparr> in
         (case conn_Write (encode_request r) w of
            (Some e, w) \<Rightarrow> (Returned (Inl (ConnError e)), w)
          | (None, w) \<Rightarrow>
             (let buffer = replicate 1024 0 in
              (case read_loop_B k c buffer w of
                 (Running, w) \<Rightarrow> (Running, w)
               | (Returned (Inl e), w) \<Rightarrow> (Returned (Inl e), w)
               | (Returned (Inr buffer), w) \<Rightarrow>
                   (case binary_Read_B buffer of
                      Inl e \<Rightarrow> (Returned (Inl e), w)
                    | Inr rep \<Rightarrow> (Returned (Inr rep), w))))))))"

text \<open>Text C: as text A, with the length of the datagram checked against
  \<^verbatim>\<open>responseBinarySize\<close>.\<close>

definition trackingRequest_C :: "Client \<Rightarrow> world \<Rightarrow> (error + trackingResponse response) \<times> world" where
  "trackingRequest_C c w =
     (case rand_Uint32 w of (s, w) \<Rightarrow>
       (let r = new_request s in
        (case conn_Write (encode_request r) w of
           (Some e, w) \<Rightarrow> (Inl (ConnError e), w)
         | (None, w) \<Rightarrow>
            (let buffer = replicate 1024 0 in
             (case time_Now w of (now, w) \<Rightarrow>
               (let w = conn_SetDeadline (Time_Add now (1 * time_Second)) w in
                (case conn_ReadFromUDP buffer w of ((n, a, err, buffer), w) \<Rightarrow>
                   if n = 0 then (Inl EmptyRead, w)
                   else if n < responseBinarySize
                   then (Inl (ShortRead responseBinarySize n), w)
                   else (case a of
                           None \<Rightarrow> (Inl NilDereference, w)
                         | Some a \<Rightarrow>
                             if \<not> sameUDPAddr a (addr c) then (Inl (UnexpectedPeer (addr c) a), w)
                             else (case err of
                                     Some e \<Rightarrow> (Inl (ConnError e), w)
                                   | None \<Rightarrow>
                                      (case binary_Read buffer of
                                         Inl e \<Rightarrow> (Inl e, w)
                                       | Inr rep \<Rightarrow>
                                           if Sequence rep \<noteq> sequence r
                                           then (Inl (UnexpectedSequence (sequence r) (Sequence rep)), w)
                                           else (Inr rep, w)))))))))))"

subsection \<open>The interval clock (text C)\<close>

definition Get :: "Client \<Rightarrow> world \<Rightarrow> (error + Response) \<times> world" where
  "Get c w =
     (case trackingRequest_C c w of
        (Inl e, w) \<Rightarrow> (Inl e, w)
      | (Inr r, w) \<Rightarrow>
         (let correctionNs = float64 (cfloat_value (CurrentCorrection (Tracking r)) * 10 ^ 9);
              corr = Duration_of_float correctionNs
          in (case time_Now w of (now, w) \<Rightarrow>
               (let resp = \<lparr>Now = Time_Add now corr,
                            Uncertainty = uncertaintyFromCorrectedTime (Tracking r),
                            uncorrectedNow = now,
                            correction = corr\<rparr>
                in (Inr resp, w\<lparr>trace := trace w @ [Obtained resp]\<rparr>)))))"

definition Earliest :: "Response \<Rightarrow> int" where
  "Earliest r = Time_Add (Now r) (int64_wrap (- Uncertainty r))"

subsection \<open>\<^verbatim>\<open>WaitUntilAfter\<close>\<close>

text \<open>The first argument bounds the number of rounds of the loop looked at. In text B
  the read loop inside \<^verbatim>\<open>trackingRequest\<close> is bounded too, by one more than the rounds
  left.\<close>

fun WaitUntilAfter_A :: "nat \<Rightarrow> Client \<Rightarrow> int \<Rightarrow> world \<Rightarrow> error option outcome \<times> world" where
  "WaitUntilAfter_A 0 c t w = (Running, w)"
| "WaitUntilAfter_A (Suc k) c t w =
     (case trackingRequest_A c w of
        (Inl e, w) \<Rightarrow> (Returned (Some e), w)
      | (Inr r, w) \<Rightarrow>
          (case time_Now w of (now, w) \<Rightarrow>
           let eps = uncertainty (Tracking r);
               earliest = Time_Add now (int64_wrap (- eps))
           in if Time_After earliest t then (Returned None, w)
              else WaitUntilAfter_A k c t (time_Sleep (Time_Sub t earliest) w)))"

fun WaitUntilAfter_B :: "nat \<Rightarrow> Client \<Rightarrow> int \<Rightarrow> world \<Rightarrow> error option outcome \<times> world" where
  "WaitUntilAfter_B 0 c t w = (Running, w)"
| "WaitUntilAfter_B (Suc k) c t w =
     (case trackingRequest_B (Suc k) c w of
        (Running, w) \<Rightarrow> (Running, w)
      | (Returned (Inl e), w) \<Rightarrow> (Returned (Some e), w)
      | (Returned (Inr r), w) \<Rightarrow>
          (case time_Now w of (now, w) \<Rightarrow>
           let eps = uncertainty (Tracking r);
               earliest = Time_Add now (int64_wrap (- eps))
           in if Time_After earliest t then (Returned None, w)
              else WaitUntilAfter_B k c t (time_Sleep (Time_Sub t earliest) w)))"

text \<open>Text C. The context is the script \<open>select_src\<close> of the world: it says, for each
  \<^verbatim>\<open>select\<close>, whether \<^verbatim>\<open>ctx.Done()\<close> is the channel taken.\<close>

fun WaitUntilAfter_C :: "nat \<Rightarrow> Client \<Rightarrow> int \<Rightarrow> world \<Rightarrow> error option outcome \<times> world" where
  "WaitUntilAfter_C 0 c t w = (Running, w)"
| "WaitUntilAfter_C (Suc k) c t w =
     (case Get c w of
        (Inl e, w) \<Rightarrow> (Returned (Some e), w)
      | (Inr r, w) \<Rightarrow>
          if Time_After (Earliest r) t then (Returned None, w)
          else (case select_After_Done (Time_Sub t (Earliest r)) w of
                  (False, w) \<Rightarrow> WaitUntilAfter_C k c t w
                | (True, w) \<Rightarrow> (Returned (Some ContextCanceled), w)))"

subsection \<open>\<^verbatim>\<open>ConsistentOperation\<close>\<close>

text \<open>
  \<^verbatim>\<open>prepare\<close> and \<^verbatim>\<open>commit\<close> are closures of the caller: they act on a state \<open>'s\<close> of the
  caller's and return an error or none. In text A the wait runs in a goroutine started
  before \<^verbatim>\<open>commit\<close>; it works on the socket, \<^verbatim>\<open>commit\<close> on the caller's state, so where the
  function waits for the goroutine (\<^verbatim>\<open><-finished\<close>) its effects are put after those of
  \<^verbatim>\<open>commit\<close>. Where the function returns without waiting, the goroutine is left running
  and the world returned holds its start only.
\<close>

definition ConsistentOperation_A ::
  "nat \<Rightarrow> Client \<Rightarrow> ('s \<Rightarrow> error option \<times> 's) \<Rightarrow> (int \<Rightarrow> 's \<Rightarrow> error option \<times> 's)
     \<Rightarrow> 's \<Rightarrow> world \<Rightarrow> (int \<times> error option) outcome \<times> 's \<times> world" where
  "ConsistentOperation_A k c prepare commit st w =
     (case prepare st of
        (Some err, st) \<Rightarrow> (Returned (Time_zero, Some err), st, w)
      | (None, st) \<Rightarrow>
         (case time_Now w of (t, w) \<Rightarrow>
           (let w = go_WaitUntilAfter t w in
            (case commit t st of
               (Some err, st) \<Rightarrow> (Returned (Time_zero, Some err), st, w)
             | (None, st) \<Rightarrow>
                (case WaitUntilAfter_A k c t w of
                   (Running, w) \<Rightarrow> (Running, st, w)
                 | (Returned _, w) \<Rightarrow> (Returned (t, None), st, w))))))"

definition ConsistentOperation_B ::
  "nat \<Rightarrow> Client \<Rightarrow> ('s \<Rightarrow> error option \<times> 's) \<Rightarrow> (int \<Rightarrow> 's \<Rightarrow> error option \<times> 's)
     \<Rightarrow> 's \<Rightarrow> world \<Rightarrow> (int \<times> error option) outcome \<times> 's \<times> world" where
  "ConsistentOperation_B k c pf cf st w =
     (case pf st of
        (Some err, st) \<Rightarrow> (Returned (Time_zero, Some err), st, w)
      | (None, st) \<Rightarrow>
         (case time_Now w of (t, w) \<Rightarrow>
           (case cf t st of
              (Some err, st) \<Rightarrow> (Returned (Time_zero, Some err), st, w)
            | (None, st) \<Rightarrow>
               (case WaitUntilAfter_B k c t w of
                  (Running, w) \<Rightarrow> (Running, st, w)
                | (Returned _, w) \<Rightarrow> (Returned (t, None), st, w)))))"

subsection \<open>A captured reply and a scripted world\<close>

text \<open>The reply of a daemon captured in the tests (\<^verbatim>\<open>testVec\<close>), the loopback address the
  client dials, and a world in which every request is answered by that reply, the random
  source gives the sequence number the reply carries, and the clock advances by 10 ms at
  each reading.\<close>

definition testVec :: "byte list" where
  "testVec =
     [0x06, 0x02, 0x00, 0x00, 0x00, 0x21, 0x00, 0x05, 0x00, 0x00, 0x00, 0x00, 0x00, 0x00, 0x00, 0x00,
      0xa2, 0x15, 0x69, 0x52, 0x00, 0x00, 0x00, 0x00, 0x00, 0x00, 0x00, 0x00, 0xce, 0x6c, 0x00, 0x84,
      0xce, 0x6c, 0x00, 0x84, 0x00, 0x00, 0x00, 0x00, 0x00, 0x00, 0x00, 0x00, 0x00, 0x00, 0x00, 0x00,
      0x00, 0x01, 0x00, 0x00, 0x00, 0x02, 0x00, 0x00, 0x00, 0x00, 0x00, 0x00, 0x5e, 0xa8, 0xb5, 0xbf,
      0x1c, 0x98, 0xf9, 0xc4, 0xec, 0xea, 0xed, 0x48, 0xeb, 0x25, 0x2c, 0x3a, 0xea, 0xc0, 0xec, 0x61,
      0x0a, 0xe7, 0xae, 0x64, 0xf3, 0x41, 0xa2, 0x0b, 0xfa, 0xc9, 0xcc, 0xf3, 0xf6, 0xcb, 0xb3, 0x6d,
      0xf0, 0xd8, 0x18, 0xb9, 0x18, 0x81, 0x2a, 0xa1]"

definition testRep :: "trackingResponse response" where
  "testRep =
     \<lparr>Version = 6, PktType = pktTypeCmdReply, Res1 = 0, Res2 = 0,
      Command = cmdTracking, Reply = rpyTracking, Status = sttSuccess,
      Pad1 = 0, Pad2 = 0, Pad3 = 0, Sequence = 2719312210, Pad4 = 0, Pad5 = 0,
      Tracking =
        \<lparr>RefID = 3463184516,
         Addr_ip = \<lparr>Addr = [206, 108, 0, 132, 0, 0, 0, 0, 0, 0, 0, 0, 0, 0, 0, 0],
                    Family = 1, Padding = 0\<rparr>,
         Stratum = 2, LeapStatus = 0,
         RefTime = \<lparr>SecHigh = 0, SecLow = 1588114879, Nsec = 479787460\<rparr>,
         CurrentCorrection = - 320148152,
         LastOffset = - 349885382,
         RmsOffset = - 356455327,
         FreqPPM = 182955620,
         ResidFreqPPM = - 213802485,
         SkewPPM = - 87438093,
         RootDelay = - 154422419,
         RootDispersion = - 254273351,
         LastUpdateInterval = 411118241\<rparr>\<rparr>"

definition localhost :: UDPAddr where
  "localhost = \<lparr>IP = [127, 0, 0, 1], Port = 323, Zone = []\<rparr>"


definition testClient :: Client where
  "testClient = \<lparr>addr = localhost\<rparr>"

definition testWorld :: world where
  "testWorld =
     \<lparr>rand_src = (\<lambda>_. 2719312210), rand_n = 0,
      clock_src = (\<lambda>k. int k * 10000000), clock_n = 0,
      write_src = (\<lambda>_. None), write_n = 0,
      read_src = (\<lambda>_. Datagram localhost testVec), read_n = 0,
      select_src = (\<lambda>_. False), select_n = 0,
      trace = []\<rparr>"

text \<open>The same world with a daemon that never answers: every read runs into its
  deadline.\<close>

definition silentWorld :: world where
  "silentWorld = testWorld\<lparr>read_src := (\<lambda>_. ReadFail ''i/o timeout'')\<rparr>"

text \<open>Closures as the tests pass them to \<^verbatim>\<open>ConsistentOperation\<close>; the caller's state
  counts the calls of \<^verbatim>\<open>commit\<close>.\<close>

definition prepare_ok :: "nat \<Rightarrow> error option \<times> nat" where
  "prepare_ok calls = (None, calls)"

definition prepare_abort :: "nat \<Rightarrow> error option \<times> nat" where
  "prepare_abort calls = (Some (OtherError ''abort''), calls)"

definition commit_ok :: "int \<Rightarrow> nat \<Rightarrow> error option \<times> nat" where
  "commit_ok t calls = (None, Suc calls)"

definition commit_abort :: "int \<Rightarrow> nat \<Rightarrow> error option \<times> nat" where
  "commit_abort t calls = (Some (OtherError ''abort''), Suc calls)"

text \<open>Worlds that differ from \<open>testWorld\<close> in one script: a reply that is its 28 bytes
  of header only; a first datagram from another host, ahead of the reply; a random source whose
  sequence number the reply does not carry; a context that is done at every \<^verbatim>\<open>select\<close>.\<close>

definition shortWorld :: world where
  "shortWorld = testWorld\<lparr>read_src := (\<lambda>_. Datagram localhost (take 28 testVec))\<rparr>"




text \<open>\<^verbatim>\<open>trackingResponse{}\<close>, every field zero.\<close>

definition zeroTracking :: trackingResponse where
  "zeroTracking =
     \<lparr>RefID = 0, Addr_ip = \<lparr>Addr = replicate 16 0, Family = 0, Padding = 0\<rparr>,
      Stratum = 0, LeapStatus = 0, RefTime = \<lparr>SecHigh = 0, SecLow = 0, Nsec = 0\<rparr>,
      CurrentCorrection = 0, LastOffset = 0, RmsOffset = 0, FreqPPM = 0, ResidFreqPPM = 0,
      SkewPPM = 0, RootDelay = 0, RootDispersion = 0, LastUpdateInterval = 0\<rparr>"

section \<open>Properties\<close>

subsection \<open>The compact float\<close>

lemma signed_take_bit_cases:
  "signed_take_bit n (k::int) =
     (if take_bit (Suc n) k \<ge> 2 ^ n then take_bit (Suc n) k - 2 ^ Suc n else take_bit (Suc n) k)"
proof -
  have a: "take_bit (Suc n) k = 2 ^ n * of_bool (bit k n) + take_bit n k"
    by (rule take_bit_Suc_from_most)
  have b: "take_bit n k < 2 ^ n" "0 \<le> take_bit n k"
    by simp_all
  show ?thesis
  proof (cases "bit k n")
    case True
    with a b show ?thesis by (simp add: signed_take_bit_eq_take_bit_minus)
  next
    case False
    with a have c: "take_bit (Suc n) k = take_bit n k" by simp
    from b have "\<not> 2 ^ n \<le> take_bit n k" by linarith
    with c False show ?thesis by (simp add: signed_take_bit_eq_take_bit_minus)
  qed
qed

lemma cfloat_coef_signed: "cfloat_coef w = signed_take_bit 24 (uint w)"
proof -
  have "uint (w mod 2 ^ 25) = take_bit 25 (uint w)"
    by (simp add: uint_mod take_bit_eq_mod)
  then show ?thesis
    by (simp add: cfloat_coef_def cfloatCoefBits_def cfloatExpBits_def Let_def signed_take_bit_cases)
qed

lemma uint_drop_bit_25_bound:
  "uint (drop_bit 25 (w :: 32 word)) < 128" "0 \<le> uint (drop_bit 25 (w :: 32 word))"
proof -
  have "uint (drop_bit 25 w) = drop_bit 25 (uint w)"
    by (simp add: drop_bit_eq_div uint_div)
  moreover have "uint w < 2 ^ 32" using uint_bounded [of w] by simp
  ultimately show "uint (drop_bit 25 w) < 128"
    by (simp add: drop_bit_eq_div)
  show "0 \<le> uint (drop_bit 25 (w :: 32 word))" by simp
qed

lemma cfloat_exp_signed: "cfloat_exp w = signed_take_bit 6 (uint (drop_bit 25 w)) - 25"
proof -
  have "take_bit 7 (uint (drop_bit 25 w)) = uint (drop_bit 25 w)"
    using uint_drop_bit_25_bound [of w] by (simp add: take_bit_int_eq_self)
  then show ?thesis
    by (simp add: cfloat_exp_def cfloatCoefBits_def cfloatExpBits_def Let_def signed_take_bit_cases)
qed

lemmas cfloat_eval =
  cfloat_value_def cfloat_coef_def cfloat_exp_def cfloatCoefBits_def cfloatExpBits_def
  power_int_minus Let_def

text \<open>The decoded value is a 25-bit integer times a power of two within the exponent
  range of a \<^verbatim>\<open>float64\<close>: the \<^verbatim>\<open>float64\<close> product of the source is exact.\<close>

lemma cfloat_value_representable:
  "\<exists>m e. cfloat_value w = real_of_int m * 2 powi e \<and> \<bar>m\<bar> \<le> 2 ^ 24 \<and> - 89 \<le> e \<and> e \<le> 38"
proof -
  have "- (2 ^ 24) \<le> signed_take_bit 24 (uint w)" "signed_take_bit 24 (uint w) < 2 ^ 24"
    using signed_take_bit_int_greater_eq_minus_exp [of 24 "uint w"]
      signed_take_bit_int_less_exp [of 24 "uint w"] by simp_all
  then have m: "\<bar>cfloat_coef w\<bar> \<le> 2 ^ 24"
    by (simp add: cfloat_coef_signed)
  have "- (2 ^ 6) \<le> signed_take_bit 6 (uint (drop_bit 25 w))"
       "signed_take_bit 6 (uint (drop_bit 25 w)) < 2 ^ 6"
    using signed_take_bit_int_greater_eq_minus_exp [of 6 "uint (drop_bit 25 w)"]
      signed_take_bit_int_less_exp [of 6 "uint (drop_bit 25 w)"] by simp_all
  then have e: "- 89 \<le> cfloat_exp w" "cfloat_exp w \<le> 38"
    by (simp_all add: cfloat_exp_signed)
  from m e show ?thesis
    unfolding cfloat_value_def by blast
qed

text \<open>
  Claim C3. \<^verbatim>\<open>cfloat.value\<close> returns the low 25 bits, sign-extended, times two to the
  power of the top 7 bits, sign-extended, less 25; and on the three vectors of the tests it
  gives 0.000448087, 14.480 and 1033.3 to the digits printed.
\<close>

theorem cfloat_value_spec:
  "cfloat_value w = spec_cfloat_value w
   \<and> \<bar>cfloat_value (- 320148152) - 448087 / 10 ^ 9\<bar> < 5 / 10 ^ 10
   \<and> \<bar>cfloat_value 182955620 - 14480 / 1000\<bar> < 1 / 10 ^ 4
   \<and> \<bar>cfloat_value 411118241 - 10333 / 10\<bar> < 5 / 10 ^ 2"
proof -
  have "cfloat_value w = spec_cfloat_value w"
    by (simp add: cfloat_value_def spec_cfloat_value_def cfloat_coef_signed cfloat_exp_signed)
  moreover have "\<bar>cfloat_value (- 320148152) - 448087 / 10 ^ 9\<bar> < 5 / 10 ^ 10"
    by (simp add: cfloat_eval)
  moreover have "\<bar>cfloat_value 182955620 - 14480 / 1000\<bar> < 1 / 10 ^ 4"
    by (simp add: cfloat_eval)
  moreover have "\<bar>cfloat_value 411118241 - 10333 / 10\<bar> < 5 / 10 ^ 2"
    by (simp add: cfloat_eval)
  ultimately show ?thesis by blast
qed

subsection \<open>\<^verbatim>\<open>float64\<close> arithmetic\<close>

text \<open>
  \<open>float_exponent\<close> is the exponent of the binade of its argument, so that \<open>float64\<close> keeps
  53 significant bits and no more; the rounding moves a number by at most \<open>2^-53\<close> of its
  size, keeps its sign, and leaves alone every integer below \<open>2^53\<close> in size times a power
  of two.
\<close>

lemma rhe_err: "\<bar>real_of_int (round_half_even x) - x\<bar> \<le> 1 / 2"
  unfolding round_half_even_def Let_def by (auto; linarith)

lemma rhe_nonneg: "0 \<le> x \<Longrightarrow> 0 \<le> round_half_even x"
  unfolding round_half_even_def Let_def by auto

lemma rhe_int: "round_half_even (of_int n) = n"
  unfolding round_half_even_def Let_def by simp

lemma float_exponent_le:
  assumes "x \<noteq> 0"
  shows "2 powi (float_exponent x) \<le> \<bar>x\<bar>"
proof (cases "1 \<le> \<bar>x\<bar>")
  case True
  then have pos: "0 < \<lfloor>\<bar>x\<bar>\<rfloor>" by linarith
  from bitlen_bounds [OF pos] have "(2::int) ^ nat (bitlen \<lfloor>\<bar>x\<bar>\<rfloor> - 1) \<le> \<lfloor>\<bar>x\<bar>\<rfloor>" by simp
  then have "real_of_int (2 ^ nat (bitlen \<lfloor>\<bar>x\<bar>\<rfloor> - 1)) \<le> real_of_int \<lfloor>\<bar>x\<bar>\<rfloor>"
    by (simp only: of_int_le_iff)
  also have "\<dots> \<le> \<bar>x\<bar>" by simp
  finally have a: "(2::real) ^ nat (bitlen \<lfloor>\<bar>x\<bar>\<rfloor> - 1) \<le> \<bar>x\<bar>" by simp
  have "1 \<le> bitlen \<lfloor>\<bar>x\<bar>\<rfloor>" using pos by (auto simp: bitlen_alt_def)
  then have "(2::real) powi (bitlen \<lfloor>\<bar>x\<bar>\<rfloor> - 1) = 2 ^ nat (bitlen \<lfloor>\<bar>x\<bar>\<rfloor> - 1)"
    by (simp add: power_int_def)
  with a True show ?thesis by (simp add: float_exponent_def)
next
  case False
  define y where "y = 1 / \<bar>x\<bar>"
  have y: "1 < y" using False assms by (simp add: y_def)
  define n where "n = \<lceil>y\<rceil> - 1"
  have npos: "0 < n" using y unfolding n_def by linarith
  from bitlen_bounds [OF npos] have "n < 2 ^ nat (bitlen n)" by simp
  then have "\<lceil>y\<rceil> \<le> 2 ^ nat (bitlen n)" by (simp add: n_def)
  then have "real_of_int \<lceil>y\<rceil> \<le> real_of_int (2 ^ nat (bitlen n))"
    by (simp only: of_int_le_iff)
  moreover have "y \<le> real_of_int \<lceil>y\<rceil>" by (rule le_of_int_ceiling)
  ultimately have "y \<le> real_of_int (2 ^ nat (bitlen n))" by (rule order_trans [rotated])
  then have "y \<le> 2 ^ nat (bitlen n)" by simp
  then have "1 / 2 ^ nat (bitlen n) \<le> 1 / y" using y
    by (simp add: field_simps)
  moreover have "1 / y = \<bar>x\<bar>" using assms by (simp add: y_def)
  moreover have "(2::real) powi (- bitlen n) = 1 / 2 ^ nat (bitlen n)"
    using bitlen_nonneg [of n] by (simp add: power_int_def field_simps)
  ultimately show ?thesis using False by (simp add: float_exponent_def y_def n_def)
qed


lemma float64_zero: "float64 0 = 0"
  by (simp add: float64_def)

lemma float64_err:
  "\<bar>float64 x - x\<bar> \<le> \<bar>x\<bar> / 2 ^ 53"
proof (cases "x = 0")
  case True
  then show ?thesis by (simp add: float64_def)
next
  case False
  define u :: real where "u = 2 powi (float_exponent x - 52)"
  define a :: real where "a = real_of_int (round_half_even (x / u))"
  have upos: "0 < u" by (simp add: u_def)
  have fx: "float64 x = a * u"
    using False by (simp add: float64_def u_def a_def Let_def)
  have h1: "\<bar>a - x / u\<bar> \<le> 1 / 2"
    unfolding a_def by (rule rhe_err)
  have "(a - x / u) * u = a * u - x"
    using upos by (simp add: field_simps)
  then have "\<bar>a * u - x\<bar> = \<bar>a - x / u\<bar> * \<bar>u\<bar>"
    by (simp only: abs_mult [symmetric])
  also have "\<dots> = \<bar>a - x / u\<bar> * u" using upos by simp
  also have "\<dots> \<le> 1 / 2 * u"
    using h1 upos by (intro mult_right_mono) simp_all
  finally have e1: "\<bar>float64 x - x\<bar> \<le> u / 2"
    by (simp add: fx)
  have "u = 2 powi (float_exponent x) / 2 ^ 52"
    by (simp add: u_def power_int_diff)
  with float_exponent_le [OF False] have "u \<le> \<bar>x\<bar> / 2 ^ 52"
    by (simp add: divide_right_mono)
  with e1 show ?thesis by simp
qed

lemma float64_nonneg: "0 \<le> x \<Longrightarrow> 0 \<le> float64 x"
  by (simp add: float64_def Let_def rhe_nonneg)

lemma float64_exact:
  assumes x: "x = real_of_int m * 2 powi e" and m: "\<bar>m\<bar> < 2 ^ 53"
  shows "float64 x = x"
proof (cases "x = 0")
  case True
  then show ?thesis by (simp add: float64_def)
next
  case False
  define E where "E = float_exponent x"
  have "2 powi E \<le> \<bar>x\<bar>" unfolding E_def by (rule float_exponent_le [OF False])
  also have "\<bar>x\<bar> = real_of_int \<bar>m\<bar> * 2 powi e" by (simp add: x abs_mult)
  also have "\<dots> < 2 ^ 53 * 2 powi e"
    using m by (intro mult_strict_right_mono) (simp_all add: of_int_less_iff [symmetric, where 'a = real] del: of_int_less_iff)
  also have "\<dots> = 2 powi (53 + e)" by (simp add: power_int_add)
  finally have lt: "(2::real) powi E < 2 powi (53 + e)" .
  have "E < 53 + e"
  proof (rule ccontr)
    assume "\<not> E < 53 + e"
    then have "53 + e \<le> E" by simp
    then have "(2::real) powi (53 + e) \<le> 2 powi E"
      by (intro power_int_increasing) simp_all
    with lt show False by simp
  qed
  then have "0 \<le> e - (E - 52)" by simp
  then obtain k where "e - (E - 52) = int k"
    using nonneg_int_cases by blast
  then have k: "e = (E - 52) + int k" by simp
  have "x / 2 powi (E - 52) = real_of_int (m * 2 ^ k)"
    by (simp add: x k power_int_add)
  then have "round_half_even (x / 2 powi (E - 52)) = m * 2 ^ k"
    by (simp only: rhe_int)
  then have "float64 x = real_of_int (m * 2 ^ k) * 2 powi (E - 52)"
    using False by (simp add: float64_def Let_def E_def)
  also have "\<dots> = x" by (simp add: x k power_int_add)
  finally show ?thesis .
qed


lemma float_exponent_less:
  assumes "x \<noteq> 0"
  shows "\<bar>x\<bar> < 2 powi (float_exponent x + 1)"
proof (cases "1 \<le> \<bar>x\<bar>")
  case True
  then have pos: "0 < \<lfloor>\<bar>x\<bar>\<rfloor>" by linarith
  define b where "b = bitlen \<lfloor>\<bar>x\<bar>\<rfloor>"
  from bitlen_bounds [OF pos] have "\<lfloor>\<bar>x\<bar>\<rfloor> < 2 ^ nat b" by (simp add: b_def)
  then have "\<lfloor>\<bar>x\<bar>\<rfloor> + 1 \<le> 2 ^ nat b" by simp
  then have "real_of_int (\<lfloor>\<bar>x\<bar>\<rfloor> + 1) \<le> real_of_int (2 ^ nat b)"
    by (simp only: of_int_le_iff)
  then have le: "real_of_int \<lfloor>\<bar>x\<bar>\<rfloor> + 1 \<le> 2 ^ nat b" by simp
  have "\<bar>x\<bar> < real_of_int \<lfloor>\<bar>x\<bar>\<rfloor> + 1" by linarith
  with le have a: "\<bar>x\<bar> < 2 ^ nat b" by linarith
  have "0 \<le> b" unfolding b_def by (rule bitlen_nonneg)
  then have "(2::real) powi b = 2 ^ nat b"
    by (simp add: power_int_def)
  with a True show ?thesis by (simp add: float_exponent_def b_def)
next
  case False
  define y where "y = 1 / \<bar>x\<bar>"
  have y: "1 < y" using False assms by (simp add: y_def)
  define n where "n = \<lceil>y\<rceil> - 1"
  have npos: "0 < n" using y unfolding n_def by linarith
  define b where "b = bitlen n"
  have b1: "1 \<le> b" using npos by (auto simp: b_def bitlen_alt_def)
  from bitlen_bounds [OF npos] have "2 ^ nat (b - 1) \<le> n" by (simp add: b_def)
  then have "real_of_int (2 ^ nat (b - 1)) \<le> real_of_int n"
    by (simp only: of_int_le_iff)
  then have le: "2 ^ nat (b - 1) \<le> real_of_int n" by simp
  have "real_of_int n < y" unfolding n_def by linarith
  with le have "2 ^ nat (b - 1) < y" by linarith
  then have "1 / y < 1 / 2 ^ nat (b - 1)" using y
    by (simp add: field_simps)
  moreover have "1 / y = \<bar>x\<bar>" using assms by (simp add: y_def)
  moreover have "(2::real) powi (- b + 1) = 1 / 2 ^ nat (b - 1)"
    using b1 by (simp add: power_int_def field_simps)
  ultimately show ?thesis using False by (simp add: float_exponent_def y_def n_def b_def)
qed

lemmas float64_eval = float64_def float_exponent_def bitlen_def compute_floorlog
  round_half_even_def

lemma float64_halve_cfloat: "float64 (0.5 * cfloat_value w) = 0.5 * cfloat_value w"
proof -
  from cfloat_value_representable [of w] obtain m e
    where v: "cfloat_value w = real_of_int m * 2 powi e" and m: "\<bar>m\<bar> \<le> 2 ^ 24"
    by blast
  have "0.5 * cfloat_value w = real_of_int m * 2 powi (e - 1)"
    by (simp add: v power_int_diff)
  moreover from m have "\<bar>m\<bar> < 2 ^ 53" by simp
  ultimately show ?thesis by (rule float64_exact)
qed

lemma float64_twice_err:
  fixes s :: real
  assumes c: "0 \<le> c"
  shows "\<bar>float64 (float64 s * c) - s * c\<bar> \<le> \<bar>s * c\<bar> / 2 ^ 51"
proof -
  define E where "E = \<bar>s * c\<bar>"
  define p where "p = float64 s * c"
  have E0: "0 \<le> E" by (simp add: E_def)
  have "p - s * c = (float64 s - s) * c" by (simp add: p_def algebra_simps)
  then have "\<bar>p - s * c\<bar> = \<bar>float64 s - s\<bar> * c" using c by (simp add: abs_mult)
  also have "\<dots> \<le> \<bar>s\<bar> / 2 ^ 53 * c"
    using float64_err [of s] c by (intro mult_right_mono)
  also have "\<dots> = E / 2 ^ 53" using c by (simp add: E_def abs_mult)
  finally have e1: "\<bar>p - s * c\<bar> \<le> E / 2 ^ 53" .
  then have pb: "\<bar>p\<bar> \<le> E + E / 2 ^ 53" unfolding E_def by linarith
  have "\<bar>float64 p - p\<bar> \<le> \<bar>p\<bar> / 2 ^ 53" by (rule float64_err)
  also have "\<dots> \<le> (E + E / 2 ^ 53) / 2 ^ 53"
    using pb by (intro divide_right_mono) simp_all
  finally have e2: "\<bar>float64 p - p\<bar> \<le> (E + E / 2 ^ 53) / 2 ^ 53" .
  have "\<bar>float64 p - s * c\<bar> \<le> \<bar>float64 p - p\<bar> + \<bar>p - s * c\<bar>" by linarith
  also have "\<dots> \<le> (E + E / 2 ^ 53) / 2 ^ 53 + E / 2 ^ 53" using e1 e2 by linarith
  also have "\<dots> \<le> E / 2 ^ 51" using E0 by (simp add: field_simps)
  finally show ?thesis by (simp add: p_def E_def)
qed

subsection \<open>The uncertainty\<close>

lemma float_trunc_near: "\<bar>real_of_int (float_trunc x) - x\<bar> < 1"
  unfolding float_trunc_def by (auto; linarith)

lemma float_trunc_nonneg: "0 \<le> x \<Longrightarrow> 0 \<le> float_trunc x"
  by (simp add: float_trunc_def)

lemma float_trunc_abs: "\<bar>real_of_int (float_trunc x)\<bar> \<le> \<bar>x\<bar>"
  unfolding float_trunc_def by (auto; linarith)

text \<open>
  Claim C2, as the specification has it: the epsilon is a non-negative duration for every
  decoded response, and it is rootDispersion + 0.5 * rootDelay in nanoseconds. The
  coefficient of a compact float is signed and nothing in \<^verbatim>\<open>uncertaintyFromCorrectedTime\<close>
  looks at the sign: a root dispersion of \<open>-2^-25\<close> seconds (the word \<open>0x01FFFFFF\<close>) with a
  root delay of zero gives -29 ns. And the sum and the product are rounded to 53 bits
  before the fraction is dropped: a root dispersion of \<open>2^32\<close> seconds (\<open>0x44800000\<close>) with
  a root delay of \<open>2^-22\<close> seconds (\<open>0xD8800000\<close>) gives 4294967296000000000 ns, which is
  more than 119 ns below the exact number.
\<close>

theorem uncertainty_negative_counterexample:
  "uncertaintyFromCorrectedTime (zeroTracking\<lparr>RootDispersion := 0x01FFFFFF\<rparr>) < 0
   \<and> 119 < \<bar>real_of_int (uncertaintyFromCorrectedTime
                (zeroTracking\<lparr>RootDispersion := 0x44800000, RootDelay := 0xD8800000\<rparr>))
              - (cfloat_value 0x44800000 + 0.5 * cfloat_value 0xD8800000) * 10 ^ 9\<bar>"
proof -
  have "uncertaintyFromCorrectedTime (zeroTracking\<lparr>RootDispersion := 0x01FFFFFF\<rparr>) = - 29"
    by (simp add: uncertaintyFromCorrectedTime_def zeroTracking_def cfloat_eval float64_eval
        Duration_of_float_def float_trunc_def minDuration_def maxDuration_def)
  moreover have "uncertaintyFromCorrectedTime
      (zeroTracking\<lparr>RootDispersion := 0x44800000, RootDelay := 0xD8800000\<rparr>) = 4294967296000000000"
    by (simp add: uncertaintyFromCorrectedTime_def zeroTracking_def cfloat_eval float64_eval
        Duration_of_float_def float_trunc_def minDuration_def maxDuration_def)
  moreover have "(cfloat_value 0x44800000 + 0.5 * cfloat_value 0xD8800000) * 10 ^ 9
      = 4294967296000000000 + 1953125 / 16384"
    by (simp add: cfloat_eval)
  ultimately show ?thesis by simp
qed

text \<open>
  Claim C2, amended. Where (rootDispersion + 0.5 * rootDelay) * 10^9 is at most \<open>2^62\<close> in
  size, \<^verbatim>\<open>uncertaintyFromCorrectedTime\<close> returns the \<^verbatim>\<open>float64\<close> of that number, the sum
  rounded and then the product, with its fraction dropped. The result is away from the
  exact number of nanoseconds by less than one plus \<open>2^-51\<close> of the size of that number,
  it is non-negative when the sum is, and the current correction has no part in it.
\<close>

theorem uncertaintyFromCorrectedTime_value:
  assumes "\<bar>(cfloat_value (RootDispersion r) + 0.5 * cfloat_value (RootDelay r)) * 10 ^ 9\<bar> \<le> 2 ^ 62"
  shows "uncertaintyFromCorrectedTime r
           = float_trunc (float64 (float64 (cfloat_value (RootDispersion r) + 0.5 * cfloat_value (RootDelay r)) * 10 ^ 9))
       \<and> \<bar>real_of_int (uncertaintyFromCorrectedTime r)
            - (cfloat_value (RootDispersion r) + 0.5 * cfloat_value (RootDelay r)) * 10 ^ 9\<bar>
           < 1 + \<bar>(cfloat_value (RootDispersion r) + 0.5 * cfloat_value (RootDelay r)) * 10 ^ 9\<bar> / 2 ^ 51
       \<and> (0 \<le> cfloat_value (RootDispersion r) + 0.5 * cfloat_value (RootDelay r)
            \<longrightarrow> 0 \<le> uncertaintyFromCorrectedTime r)
       \<and> uncertaintyFromCorrectedTime (r\<lparr>CurrentCorrection := x\<rparr>) = uncertaintyFromCorrectedTime r"
proof -
  define s where "s = cfloat_value (RootDispersion r) + 0.5 * cfloat_value (RootDelay r)"
  define ns where "ns = float64 (float64 s * 10 ^ 9)"
  have E: "\<bar>s * 10 ^ 9\<bar> \<le> 2 ^ 62" using assms by (simp add: s_def)
  have err: "\<bar>ns - s * 10 ^ 9\<bar> \<le> \<bar>s * 10 ^ 9\<bar> / 2 ^ 51"
    unfolding ns_def by (rule float64_twice_err) simp
  have "\<bar>s * 10 ^ 9\<bar> / 2 ^ 51 \<le> 2 ^ 62 / 2 ^ 51"
    using E by (intro divide_right_mono) simp_all
  with err E have "\<bar>ns\<bar> \<le> 2 ^ 62 + 2 ^ 62 / 2 ^ 51" by linarith
  then have nsb: "\<bar>ns\<bar> < 2 ^ 63" by simp
  have "\<bar>real_of_int (float_trunc ns)\<bar> < 2 ^ 63"
    using float_trunc_abs [of ns] nsb by linarith
  then have "\<bar>float_trunc ns\<bar> < 2 ^ 63"
    by (metis (mono_tags, opaque_lifting) of_int_abs of_int_less_iff of_int_numeral of_int_power)
  then have "minDuration \<le> float_trunc ns \<and> float_trunc ns \<le> maxDuration"
    unfolding minDuration_def maxDuration_def by (simp add: abs_less_iff)
  moreover have "uncertaintyFromCorrectedTime r = Duration_of_float ns"
    unfolding uncertaintyFromCorrectedTime_def Let_def float64_halve_cfloat ns_def s_def ..
  ultimately have eq: "uncertaintyFromCorrectedTime r = float_trunc ns"
    by (simp add: Duration_of_float_def)
  have near: "\<bar>real_of_int (uncertaintyFromCorrectedTime r) - s * 10 ^ 9\<bar> < 1 + \<bar>s * 10 ^ 9\<bar> / 2 ^ 51"
    unfolding eq using float_trunc_near [of ns] err by linarith
  have nonneg: "0 \<le> uncertaintyFromCorrectedTime r" if "0 \<le> s"
    unfolding eq ns_def using that
    by (intro float_trunc_nonneg float64_nonneg mult_nonneg_nonneg) simp_all
  have indep: "uncertaintyFromCorrectedTime (r\<lparr>CurrentCorrection := x\<rparr>) = uncertaintyFromCorrectedTime r"
    by (simp add: uncertaintyFromCorrectedTime_def)
  from eq near nonneg indep show ?thesis
    unfolding ns_def s_def by blast
qed

lemma testRep_ns: "(cfloat_value (RootDispersion (Tracking testRep)) + 0.5 * cfloat_value (RootDelay (Tracking testRep))) * 10 ^ 9
   = 131955212890625 / 16777216"
  by (simp add: testRep_def cfloat_eval)

text \<open>Witness for C2: the captured reply, with an epsilon of 7865143 ns.\<close>

theorem uncertaintyFromCorrectedTime_value_witness:
  "\<bar>(cfloat_value (RootDispersion (Tracking testRep)) + 0.5 * cfloat_value (RootDelay (Tracking testRep))) * 10 ^ 9\<bar> \<le> 2 ^ 62
   \<and> 0 \<le> cfloat_value (RootDispersion (Tracking testRep)) + 0.5 * cfloat_value (RootDelay (Tracking testRep))
   \<and> uncertaintyFromCorrectedTime (Tracking testRep) = 7865143
   \<and> \<bar>real_of_int (uncertaintyFromCorrectedTime (Tracking testRep)) - 131955212890625 / 16777216\<bar>
        < 1 + \<bar>131955212890625 / 16777216\<bar> / 2 ^ 51
   \<and> 0 \<le> uncertaintyFromCorrectedTime (Tracking testRep)"
proof -
  have h: "\<bar>(cfloat_value (RootDispersion (Tracking testRep)) + 0.5 * cfloat_value (RootDelay (Tracking testRep))) * 10 ^ 9\<bar> \<le> 2 ^ 62"
    unfolding testRep_ns by simp
  have p: "0 \<le> cfloat_value (RootDispersion (Tracking testRep)) + 0.5 * cfloat_value (RootDelay (Tracking testRep))"
    by (simp add: testRep_def cfloat_eval)
  have v: "uncertaintyFromCorrectedTime (Tracking testRep) = 7865143"
    by (simp add: uncertaintyFromCorrectedTime_def testRep_def cfloat_eval float64_eval
        Duration_of_float_def float_trunc_def minDuration_def maxDuration_def)
  from uncertaintyFromCorrectedTime_value [OF h] p h v show ?thesis
    unfolding testRep_ns by simp
qed

text \<open>The older \<^verbatim>\<open>uncertainty\<close> of texts A and B adds the size of the correction and
  converts to a duration before it multiplies by \<^verbatim>\<open>time.Second\<close>: it keeps whole seconds
  only, and is zero on the captured reply. A root dispersion of one second with a root
  delay of \<open>-2^-59\<close> seconds has a sum that rounds up to one, and gives one second.\<close>

lemma uncertainty_testRep: "uncertainty (Tracking testRep) = 0"
  by (simp add: uncertainty_def testRep_def cfloat_eval float64_eval Duration_of_float_def float_trunc_def
      minDuration_def maxDuration_def int64_wrap_def time_Second_def)

lemma uncertainty_rounds_up:
  "uncertainty (zeroTracking\<lparr>RootDispersion := 0x04800000, RootDelay := 0xBDFFFFFF\<rparr>) = 1000000000
   \<and> uncertaintyFromCorrectedTime (zeroTracking\<lparr>RootDispersion := 0x04800000, RootDelay := 0xBDFFFFFF\<rparr>)
       = 1000000000"
  by (simp add: uncertainty_def uncertaintyFromCorrectedTime_def zeroTracking_def cfloat_eval float64_eval
      Duration_of_float_def float_trunc_def minDuration_def maxDuration_def int64_wrap_def time_Second_def)

subsection \<open>The request\<close>

lemmas encode_request_eval = encode_request_def new_request_def be16_bytes_def be32_bytes_def

text \<open>
  Claim C7, as the specification has it: the encoded request is 512 bytes long. The
  request with sequence number 0 is not.
\<close>

theorem encode_request_512_counterexample:
  "length (encode_request (new_request 0)) \<noteq> 512"
  by (simp add: encode_request_eval)

text \<open>
  Claim C7, amended: whatever the sequence number, the encoded request is 509 bytes long
  (4 + 2 + 2 + 4 + 8 + 93 + 396).
\<close>

theorem encode_request_length:
  "length (encode_request (new_request s)) = 509"
  by (simp add: encode_request_eval)

subsection \<open>The transport\<close>

lemmas world_ops =
  rand_Uint32_def time_Now_def conn_Write_def conn_SetDeadline_def conn_ReadFromUDP_def
  time_Sleep_def select_After_Done_def go_WaitUntilAfter_def

text \<open>
  In \<^verbatim>\<open>trackingRequest\<close> of text C a read of fewer bytes than the response takes never
  gives a response: with the request written, a read of no byte gives the error of an
  empty read and a shorter one the error of a short read. The empty read is an error in
  text A as well.
\<close>

lemma trackingRequest_short_read:
  assumes "fst (conn_ReadFromUDP (replicate 1024 0) w) = (n, a, err, buf)"
    and "n < responseBinarySize"
  shows "(\<exists>e. fst (trackingRequest_C c w) = Inl e)
       \<and> (write_src w (write_n w) = None
            \<longrightarrow> fst (trackingRequest_C c w)
                  = Inl (if n = 0 then EmptyRead else ShortRead responseBinarySize n))
       \<and> (write_src w (write_n w) = None \<and> n = 0
            \<longrightarrow> fst (trackingRequest_A c w) = Inl EmptyRead)"
  using assms
  by (cases "write_src w (write_n w)"; cases "read_src w (read_n w)")
     (auto simp add: trackingRequest_C_def trackingRequest_A_def world_ops Let_def)

lemma short_read:
  "fst (conn_ReadFromUDP (replicate 1024 0) shortWorld)
     = (28, Some localhost, None, take 28 testVec @ replicate 996 0)"
  by (simp add: conn_ReadFromUDP_def shortWorld_def testWorld_def testVec_def)

lemma trackingRequest_C_short_datagram:
  "fst (trackingRequest_C testClient shortWorld) = Inl (ShortRead responseBinarySize 28)"
proof -
  have n: "28 < responseBinarySize" by (simp add: responseBinarySize_def)
  have wr: "write_src shortWorld (write_n shortWorld) = None"
    by (simp add: shortWorld_def testWorld_def)
  from trackingRequest_short_read [OF short_read n, of testClient] wr show ?thesis
    by simp
qed

text \<open>
  Claim C8: a datagram shorter than the response yields an error and is not decoded into
  a partial result. Text C does that (lemma \<open>trackingRequest_short_read\<close>). Text A does
  not: it has no check of the length (a comment marks partial reads as to do) and reads
  the response from the whole zero-filled buffer, so that \<^verbatim>\<open>binary.Read\<close> cannot fail. A
  reply of 28 bytes, the header alone with the sequence number of the request, comes
  back as a response whose tracking fields are all zero.
\<close>

theorem trackingRequest_A_short_datagram:
  "fst (trackingRequest_A testClient shortWorld)
     = Inr (testRep\<lparr>Tracking := zeroTracking\<rparr>)"
  by (simp add: trackingRequest_A_def world_ops Let_def shortWorld_def testWorld_def testVec_def
      testClient_def localhost_def sameUDPAddr_def IP_Equal_def binary_Read_def
      responseBinarySize_def decode_header_def decode_tracking_def be16_def be32_def nth_append
      new_request_def testRep_def zeroTracking_def
      pktTypeCmdReply_def cmdTracking_def rpyTracking_def sttSuccess_def)











lemma same_localhost: "sameUDPAddr localhost (addr testClient)"
  by (simp add: sameUDPAddr_def IP_Equal_def testClient_def localhost_def)







subsection \<open>\<^verbatim>\<open>ConsistentOperation\<close>\<close>

text \<open>
  Claim C5. When \<^verbatim>\<open>prepare\<close> fails, \<^verbatim>\<open>ConsistentOperation\<close> returns the zero time and
  the error of \<^verbatim>\<open>prepare\<close>, in text A and in text B. The result is the same whatever
  \<^verbatim>\<open>commit\<close> is, the caller's state is the one \<^verbatim>\<open>prepare\<close> left and the world is
  untouched: \<^verbatim>\<open>commit\<close> was not called, the clock was not read, nothing was sent.
\<close>

theorem ConsistentOperation_prepare_fails:
  assumes "prepare st = (Some err, st')"
  shows "ConsistentOperation_A k c prepare commit st w = (Returned (Time_zero, Some err), st', w)
       \<and> ConsistentOperation_B k c prepare commit st w = (Returned (Time_zero, Some err), st', w)"
  using assms by (simp add: ConsistentOperation_A_def ConsistentOperation_B_def)

text \<open>Witness for C5: \<^verbatim>\<open>prepare\<close> aborts, \<^verbatim>\<open>commit\<close> would count its calls; the count
  stays 0.\<close>

theorem ConsistentOperation_prepare_fails_witness:
  "prepare_abort 0 = (Some (OtherError ''abort''), 0)
   \<and> ConsistentOperation_A 1 testClient prepare_abort commit_ok 0 testWorld
       = (Returned (Time_zero, Some (OtherError ''abort'')), 0, testWorld)
   \<and> ConsistentOperation_B 1 testClient prepare_abort commit_ok 0 testWorld
       = (Returned (Time_zero, Some (OtherError ''abort'')), 0, testWorld)"
  using ConsistentOperation_prepare_fails
    [of prepare_abort 0 "OtherError ''abort''" 0 1 testClient commit_ok testWorld]
  by (simp add: prepare_abort_def)

text \<open>
  Claim C4, as the specification has it: when \<^verbatim>\<open>commit\<close> fails after a successful
  \<^verbatim>\<open>prepare\<close>, \<^verbatim>\<open>WaitUntilAfter\<close> is never invoked. In text A the goroutine that calls
  \<^verbatim>\<open>c.WaitUntilAfter(t)\<close> is started before \<^verbatim>\<open>commit\<close> is called: with a \<^verbatim>\<open>commit\<close>
  that fails, the wait has been started all the same.
\<close>

theorem ConsistentOperation_commit_fails_counterexample:
  "Go_WaitUntilAfter 0 \<in> set (trace (snd (snd
      (ConsistentOperation_A 1 testClient prepare_ok commit_abort 0 testWorld))))"
  by (simp add: ConsistentOperation_A_def world_ops prepare_ok_def commit_abort_def testWorld_def)

text \<open>
  Claim C4, amended. When \<^verbatim>\<open>prepare\<close> succeeds and \<^verbatim>\<open>commit\<close> fails,
  \<^verbatim>\<open>ConsistentOperation\<close> returns the zero time and the error of \<^verbatim>\<open>commit\<close>. In text B
  it has then read the clock and done nothing else: no \<^verbatim>\<open>WaitUntilAfter\<close>, which would
  have sent a request (lemma \<open>WaitUntilAfter_B_sends\<close>). In text A it has read the clock
  and started the goroutine of the wait, for which it does not wait.
\<close>

theorem ConsistentOperation_commit_fails:
  assumes "prepare st = (None, st1)"
    and "time_Now w = (t, w1)"
    and "commit t st1 = (Some err, st2)"
  shows "ConsistentOperation_A k c prepare commit st w
           = (Returned (Time_zero, Some err), st2, go_WaitUntilAfter t w1)
       \<and> trace (go_WaitUntilAfter t w1) = trace w @ [Go_WaitUntilAfter t]
       \<and> ConsistentOperation_B k c prepare commit st w
           = (Returned (Time_zero, Some err), st2, w1)
       \<and> trace w1 = trace w \<and> write_n w1 = write_n w \<and> read_n w1 = read_n w"
  using assms by (auto simp add: ConsistentOperation_A_def ConsistentOperation_B_def world_ops)

lemma test_now: "time_Now testWorld = (0, testWorld\<lparr>clock_n := 1\<rparr>)"
  by (simp add: time_Now_def testWorld_def)

text \<open>Witness for C4: \<^verbatim>\<open>prepare\<close> succeeds, \<^verbatim>\<open>commit\<close> aborts.\<close>

theorem ConsistentOperation_commit_fails_witness:
  "prepare_ok 0 = (None, 0)
   \<and> time_Now testWorld = (0, testWorld\<lparr>clock_n := 1\<rparr>)
   \<and> commit_abort 0 0 = (Some (OtherError ''abort''), 1)
   \<and> ConsistentOperation_A 1 testClient prepare_ok commit_abort 0 testWorld
       = (Returned (Time_zero, Some (OtherError ''abort'')), 1,
          go_WaitUntilAfter 0 (testWorld\<lparr>clock_n := 1\<rparr>))
   \<and> ConsistentOperation_B 1 testClient prepare_ok commit_abort 0 testWorld
       = (Returned (Time_zero, Some (OtherError ''abort'')), 1, testWorld\<lparr>clock_n := 1\<rparr>)"
proof -
  have p: "prepare_ok 0 = (None, 0)" by (simp add: prepare_ok_def)
  have c: "commit_abort 0 0 = (Some (OtherError ''abort''), 1)" by (simp add: commit_abort_def)
  from ConsistentOperation_commit_fails
    [where prepare = prepare_ok and st = 0 and ?st1.0 = 0 and w = testWorld and t = 0
      and ?w1.0 = "testWorld\<lparr>clock_n := 1\<rparr>" and commit = commit_abort and ?st2.0 = 1
      and err = "OtherError ''abort''" and k = 1 and c = testClient, OF p test_now c]
  show ?thesis
    by (simp only: p c test_now simp_thms)
qed

text \<open>A \<^verbatim>\<open>WaitUntilAfter\<close> of text B that runs at all writes a request to the socket.\<close>

lemma read_loop_B_write_n: "write_n (snd (read_loop_B k c buffer w)) = write_n w"
  by (induction k c buffer w rule: read_loop_B.induct)
     (simp_all add: world_ops Let_def split: prod.splits recv.splits option.splits)

lemma trackingRequest_B_write_n: "write_n (snd (trackingRequest_B k c w)) = Suc (write_n w)"
  using read_loop_B_write_n [of k c "replicate 1024 0"
      "snd (conn_Write (encode_request ((new_request 0)\<lparr>sequence := fst (rand_Uint32 w)\<rparr>))
         (snd (rand_Uint32 w)))"]
  by (auto simp add: trackingRequest_B_def Let_def world_ops
        split: prod.splits option.splits outcome.splits sum.splits)

lemma WaitUntilAfter_B_write_n: "write_n w \<le> write_n (snd (WaitUntilAfter_B k c t w))"
proof (induction k arbitrary: w)
  case 0
  then show ?case by simp
next
  case (Suc k)
  show ?case
  proof (cases "trackingRequest_B (Suc k) c w")
    case (Pair r w1)
    with trackingRequest_B_write_n [of "Suc k" c w] have w1: "write_n w1 = Suc (write_n w)"
      by simp
    have ih: "write_n w \<le> write_n (snd (WaitUntilAfter_B k c t w'))"
      if "write_n w' = write_n w1" for w'
      using Suc.IH [of w'] that w1 by simp
    show ?thesis
      using Pair w1 ih
      by (auto simp add: Let_def world_ops split: prod.splits outcome.splits sum.splits)
  qed
qed

lemma WaitUntilAfter_B_sends: "write_n w < write_n (snd (WaitUntilAfter_B (Suc k) c t w))"
proof (cases "trackingRequest_B (Suc k) c w")
  case (Pair r w1)
  with trackingRequest_B_write_n [of "Suc k" c w] have w1: "write_n w1 = Suc (write_n w)"
    by simp
  have ih: "write_n w < write_n (snd (WaitUntilAfter_B k c t w'))"
    if "write_n w' = write_n w1" for w'
    using WaitUntilAfter_B_write_n [of w' k c t] that w1 by simp
  show ?thesis
    using Pair w1 ih
    by (auto simp add: Let_def world_ops split: prod.splits outcome.splits sum.splits)
qed

text \<open>
  Claim C10. When \<^verbatim>\<open>prepare\<close> and \<^verbatim>\<open>commit\<close> succeed and the wait comes back with an
  error \<open>e\<close>, whatever it is, \<^verbatim>\<open>ConsistentOperation\<close> returns the timestamp and no error:
  in text A the goroutine drops the result of \<^verbatim>\<open>c.WaitUntilAfter(t)\<close>, in text B the call
  is a statement of its own.
\<close>

theorem ConsistentOperation_drops_wait_error:
  assumes "prepare st = (None, st1)"
    and "time_Now w = (t, w1)"
    and "commit t st1 = (None, st2)"
  shows "(WaitUntilAfter_A k c t (go_WaitUntilAfter t w1) = (Returned (Some e), wA)
          \<longrightarrow> ConsistentOperation_A k c prepare commit st w = (Returned (t, None), st2, wA))
       \<and> (WaitUntilAfter_B k c t w1 = (Returned (Some e), wB)
          \<longrightarrow> ConsistentOperation_B k c prepare commit st w = (Returned (t, None), st2, wB))"
  using assms by (simp add: ConsistentOperation_A_def ConsistentOperation_B_def)

lemma silent_now: "time_Now silentWorld = (0, silentWorld\<lparr>clock_n := 1\<rparr>)"
  by (simp add: time_Now_def silentWorld_def testWorld_def)

lemma silent_WaitUntilAfter_A:
  "WaitUntilAfter_A 1 testClient 0 (go_WaitUntilAfter 0 (silentWorld\<lparr>clock_n := 1\<rparr>))
   = (Returned (Some EmptyRead),
      silentWorld\<lparr>rand_n := 1, clock_n := 2, write_n := 1, read_n := 1,
        trace := [Go_WaitUntilAfter 0, Sent (encode_request (new_request 2719312210)),
                  Deadline 1010000000]\<rparr>)"
  by (simp add: trackingRequest_A_def world_ops silentWorld_def testWorld_def Let_def
        Time_Add_def time_Second_def)

lemma silent_WaitUntilAfter_B:
  "WaitUntilAfter_B 1 testClient 0 (silentWorld\<lparr>clock_n := 1\<rparr>)
   = (Returned (Some EmptyRead),
      silentWorld\<lparr>rand_n := 1, clock_n := 2, write_n := 1, read_n := 1,
        trace := [Sent (encode_request (new_request 2719312210)), Deadline 1010000000]\<rparr>)"
  by (simp add: trackingRequest_B_def world_ops silentWorld_def testWorld_def Let_def
        numeral_2_eq_2 Time_Add_def time_Second_def new_request_def)

text \<open>Witness for C10: the daemon does not answer, the wait ends with the error of an
  empty read after one request, and \<^verbatim>\<open>ConsistentOperation\<close> reports success.\<close>

theorem ConsistentOperation_drops_wait_error_witness:
  "prepare_ok 0 = (None, 0)
   \<and> time_Now silentWorld = (0, silentWorld\<lparr>clock_n := 1\<rparr>)
   \<and> commit_ok 0 0 = (None, 1)
   \<and> WaitUntilAfter_A 1 testClient 0 (go_WaitUntilAfter 0 (silentWorld\<lparr>clock_n := 1\<rparr>))
       = (Returned (Some EmptyRead),
          silentWorld\<lparr>rand_n := 1, clock_n := 2, write_n := 1, read_n := 1,
            trace := [Go_WaitUntilAfter 0, Sent (encode_request (new_request 2719312210)),
                      Deadline 1010000000]\<rparr>)
   \<and> ConsistentOperation_A 1 testClient prepare_ok commit_ok 0 silentWorld
       = (Returned (0, None), 1,
          silentWorld\<lparr>rand_n := 1, clock_n := 2, write_n := 1, read_n := 1,
            trace := [Go_WaitUntilAfter 0, Sent (encode_request (new_request 2719312210)),
                      Deadline 1010000000]\<rparr>)
   \<and> WaitUntilAfter_B 1 testClient 0 (silentWorld\<lparr>clock_n := 1\<rparr>)
       = (Returned (Some EmptyRead),
          silentWorld\<lparr>rand_n := 1, clock_n := 2, write_n := 1, read_n := 1,
            trace := [Sent (encode_request (new_request 2719312210)), Deadline 1010000000]\<rparr>)
   \<and> ConsistentOperation_B 1 testClient prepare_ok commit_ok 0 silentWorld
       = (Returned (0, None), 1,
          silentWorld\<lparr>rand_n := 1, clock_n := 2, write_n := 1, read_n := 1,
            trace := [Sent (encode_request (new_request 2719312210)), Deadline 1010000000]\<rparr>)"
proof -
  have p: "prepare_ok 0 = (None, 0)" by (simp add: prepare_ok_def)
  have c: "commit_ok 0 0 = (None, 1)" by (simp add: commit_ok_def)
  from ConsistentOperation_drops_wait_error
    [where prepare = prepare_ok and st = 0 and ?st1.0 = 0 and w = silentWorld and t = 0
      and ?w1.0 = "silentWorld\<lparr>clock_n := 1\<rparr>" and commit = commit_ok and ?st2.0 = 1
      and k = 1 and c = testClient and e = EmptyRead, OF p silent_now c]
    silent_WaitUntilAfter_A silent_WaitUntilAfter_B
  show ?thesis
    by (simp only: p c silent_now simp_thms)
qed

subsection \<open>\<^verbatim>\<open>WaitUntilAfter\<close> with a context (text C)\<close>

text \<open>What one \<^verbatim>\<open>Get\<close> adds to the trace, and that its errors are never the one of a
  cancelled context.\<close>

lemma binary_Read_error: "binary_Read bs = Inl e \<Longrightarrow> e = UnexpectedEOF"
  by (simp add: binary_Read_def split: if_splits)

lemma trackingRequest_C_trace:
  assumes "trackingRequest_C c w = (res, w')"
  shows "res \<noteq> Inl ContextCanceled
       \<and> ((\<exists>q e. trace w' = trace w @ [Sent q] \<and> res = Inl (ConnError e))
          \<or> (\<exists>q dl. trace w' = trace w @ [Sent q, Deadline dl]))"
  using assms
  unfolding trackingRequest_C_def world_ops Let_def
  by (auto split: prod.splits option.splits recv.splits if_splits sum.splits
        dest: binary_Read_error)

lemma Get_Inr:
  assumes "Get c w = (Inr r, w')"
  shows "\<exists>q dl. trace w' = trace w @ [Sent q, Deadline dl, Obtained r]"
proof -
  obtain res w1 where tr: "trackingRequest_C c w = (res, w1)"
    by (cases "trackingRequest_C c w") 
  with assms obtain rep where res: "res = Inr rep"
    by (cases res) (auto simp add: Get_def)
  from trackingRequest_C_trace [OF tr] res
  obtain q dl where t1: "trace w1 = trace w @ [Sent q, Deadline dl]"
    by auto
  from assms tr res have "trace w' = trace w1 @ [Obtained r]"
    by (auto simp add: Get_def Let_def time_Now_def)
  with t1 show ?thesis by simp
qed

lemma Get_Inl:
  assumes "Get c w = (Inl e, w')"
  shows "e \<noteq> ContextCanceled
       \<and> (\<exists>q. trace w' = trace w @ [Sent q] \<or> (\<exists>dl. trace w' = trace w @ [Sent q, Deadline dl]))"
proof -
  obtain res w1 where tr: "trackingRequest_C c w = (res, w1)"
    by (cases "trackingRequest_C c w") 
  with assms have res: "res = Inl e" "w' = w1"
    by (cases res; auto simp add: Get_def Let_def time_Now_def)+
  from trackingRequest_C_trace [OF tr] res show ?thesis
    by auto
qed

text \<open>One round of the loop: the four ways it can go.\<close>

lemma WaitUntilAfter_C_Suc_cases:
  assumes "WaitUntilAfter_C (Suc k) c t w = (res, w')"
  obtains
    (error) e where "Get c w = (Inl e, w')" "res = Returned (Some e)"
  | (after) r where "Get c w = (Inr r, w')" "t < Earliest r" "res = Returned None"
  | (cancel) r w1 where "Get c w = (Inr r, w1)" "Earliest r \<le> t"
      "select_src w1 (select_n w1)"
      "trace w' = trace w1 @ [Waited (Time_Sub t (Earliest r)) True]"
      "res = Returned (Some ContextCanceled)"
  | (again) r w1 w2 where "Get c w = (Inr r, w1)" "Earliest r \<le> t"
      "\<not> select_src w1 (select_n w1)"
      "trace w2 = trace w1 @ [Waited (Time_Sub t (Earliest r)) False]"
      "WaitUntilAfter_C k c t w2 = (res, w')"
proof (cases "Get c w")
  case (Pair g w1)
  show ?thesis
  proof (cases g)
    case (Inl e)
    with Pair assms error show ?thesis by simp
  next
    case (Inr r)
    show ?thesis
    proof (cases "t < Earliest r")
      case True
      with Pair Inr assms after show ?thesis by (simp add: Time_After_def)
    next
      case False
      then have le: "Earliest r \<le> t" by simp
      show ?thesis
      proof (cases "select_src w1 (select_n w1)")
        case True
        with Pair Inr False assms have
          "trace w' = trace w1 @ [Waited (Time_Sub t (Earliest r)) True]"
          "res = Returned (Some ContextCanceled)"
          by (auto simp add: Time_After_def select_After_Done_def)
        with cancel [OF _ le True] Pair Inr show ?thesis by simp
      next
        case sel: False
        define w2 where "w2 = snd (select_After_Done (Time_Sub t (Earliest r)) w1)"
        have tr: "trace w2 = trace w1 @ [Waited (Time_Sub t (Earliest r)) False]"
          using sel by (simp add: w2_def select_After_Done_def)
        have "WaitUntilAfter_C k c t w2 = (res, w')"
          using Pair Inr False assms sel
          by (simp add: Time_After_def w2_def select_After_Done_def)
        with again [OF _ le sel tr] Pair Inr show ?thesis by simp
      qed
    qed
  qed
qed

text \<open>
  Whatever \<^verbatim>\<open>WaitUntilAfter\<close> of text C has done when it returns, or when the bound on the
  rounds is reached, is a row of rounds and a tail. Every round is a request sent, a
  reading obtained whose \<^verbatim>\<open>Earliest()\<close> is not after the target, and a wait of the target
  minus that \<^verbatim>\<open>Earliest()\<close> which the timer ends; what follows a round starts with the next
  request. When the function returns without error the tail is a request and a reading
  whose \<^verbatim>\<open>Earliest()\<close> is after the target. The other tails are those of a cancelled wait
  and of a failed request; when the bound is reached there is no tail.
\<close>

lemma WaitUntilAfter_C_run:
  assumes "WaitUntilAfter_C k c t w = (res, w')"
  shows "\<exists>rs tl.
           trace w' = trace w
              @ concat (map (\<lambda>(q, dl, r). [Sent q, Deadline dl, Obtained r,
                                            Waited (Time_Sub t (Earliest r)) False]) rs)
              @ tl
         \<and> (\<forall>(q, dl, r) \<in> set rs. Earliest r \<le> t)
         \<and> (res = Running \<and> tl = [] \<and> length rs = k
            \<or> res = Returned None
                \<and> (\<exists>q dl r. tl = [Sent q, Deadline dl, Obtained r] \<and> t < Earliest r)
            \<or> res = Returned (Some ContextCanceled)
                \<and> (\<exists>q dl r. tl = [Sent q, Deadline dl, Obtained r,
                                    Waited (Time_Sub t (Earliest r)) True]
                       \<and> Earliest r \<le> t)
            \<or> (\<exists>e. res = Returned (Some e) \<and> e \<noteq> ContextCanceled
                   \<and> (\<exists>q. tl = [Sent q] \<or> (\<exists>dl. tl = [Sent q, Deadline dl]))))"
  (is "\<exists>rs tl. ?S w rs tl \<and> ?A rs \<and> ?T rs tl k")
  using assms
proof (induction k arbitrary: w)
  case 0
  then have "?S w [] []" "?A []" "?T [] [] 0" by simp_all
  then show ?case by (intro exI conjI)
next
  case (Suc k)
  from Suc.prems show ?case
  proof (cases rule: WaitUntilAfter_C_Suc_cases)
    case (error e)
    from Get_Inl [OF error(1)] obtain tl where tl: "trace w' = trace w @ tl"
      "\<exists>q. tl = [Sent q] \<or> (\<exists>dl. tl = [Sent q, Deadline dl])" and e: "e \<noteq> ContextCanceled"
      by blast
    from tl(1) have s: "?S w [] tl" by simp
    have a: "?A []" by simp
    from tl(2) e error(2)
    have "\<exists>e. res = Returned (Some e) \<and> e \<noteq> ContextCanceled
                   \<and> (\<exists>q. tl = [Sent q] \<or> (\<exists>dl. tl = [Sent q, Deadline dl]))"
      by (intro exI [where x = e] conjI)
    then have "?T [] tl (Suc k)" by (intro disjI2)
    with s a show ?thesis by (intro exI conjI)
  next
    case (after r)
    from Get_Inr [OF after(1)] obtain q dl
      where "trace w' = trace w @ [Sent q, Deadline dl, Obtained r]" by blast
    then have s: "?S w [] [Sent q, Deadline dl, Obtained r]" by simp
    have a: "?A []" by simp
    from after(2,3)
    have "res = Returned None
                \<and> (\<exists>q' dl' r'. [Sent q, Deadline dl, Obtained r] = [Sent q', Deadline dl', Obtained r']
                      \<and> t < Earliest r')"
      by simp
    then have "?T [] [Sent q, Deadline dl, Obtained r] (Suc k)"
      by (intro disjI2 disjI1)
    with s a show ?thesis by (intro exI conjI)
  next
    case (cancel r w1)
    from Get_Inr [OF cancel(1)] obtain q dl
      where "trace w1 = trace w @ [Sent q, Deadline dl, Obtained r]" by blast
    with cancel(4)
    have s: "?S w [] [Sent q, Deadline dl, Obtained r, Waited (Time_Sub t (Earliest r)) True]"
      by simp
    have a: "?A []" by simp
    from cancel(2,5)
    have "res = Returned (Some ContextCanceled)
                \<and> (\<exists>q' dl' r'. [Sent q, Deadline dl, Obtained r, Waited (Time_Sub t (Earliest r)) True]
                          = [Sent q', Deadline dl', Obtained r',
                                    Waited (Time_Sub t (Earliest r')) True]
                       \<and> Earliest r' \<le> t)"
      by simp
    then have "?T [] [Sent q, Deadline dl, Obtained r, Waited (Time_Sub t (Earliest r)) True] (Suc k)"
      by (intro disjI2 disjI1)
    with s a show ?thesis by (intro exI conjI)
  next
    case (again r w1 w2)
    from Get_Inr [OF again(1)] obtain q dl
      where t1: "trace w1 = trace w @ [Sent q, Deadline dl, Obtained r]" by blast
    from Suc.IH [OF again(5)] obtain rs tl where ih: "?S w2 rs tl" "?A rs" "?T rs tl k"
      by blast
    from ih(1) t1 again(4) have s: "?S w ((q, dl, r) # rs) tl" by simp
    from ih(2) again(2) have a: "?A ((q, dl, r) # rs)" by simp
    from ih(3) have "?T ((q, dl, r) # rs) tl (Suc k)" by simp
    with s a show ?thesis by (intro exI conjI)
  qed
qed

text \<open>The captured reply decoded, and the scripted world run.\<close>

lemma decode_testVec: "binary_Read (testVec @ replicate 920 0) = Inr testRep"
  by (simp add: binary_Read_def responseBinarySize_def decode_header_def decode_tracking_def
        testVec_def testRep_def be16_def be32_def nth_append
        pktTypeCmdReply_def cmdTracking_def rpyTracking_def sttSuccess_def)

lemma testVec_buffer: "take (min (length testVec) 1024) testVec @ drop (min (length testVec) 1024) (replicate 1024 0) = testVec @ replicate 920 0"
  by (simp add: testVec_def)

lemma testVec_length: "length testVec = 104"
  by (simp add: testVec_def)

lemma testRep_correction: "Duration_of_float (float64 (cfloat_value (CurrentCorrection (Tracking testRep)) * 1000000000)) = 448087"
  by (simp add: testRep_def cfloat_eval float64_eval Duration_of_float_def float_trunc_def minDuration_def maxDuration_def)

lemma testRep_uncertainty: "uncertaintyFromCorrectedTime (Tracking testRep) = 7865143"
  by (simp add: uncertaintyFromCorrectedTime_def testRep_def cfloat_eval float64_eval Duration_of_float_def float_trunc_def minDuration_def maxDuration_def)

lemma testRep_Sequence: "Sequence testRep = 2719312210"
  by (simp add: testRep_def)

lemmas run_eval = Get_def trackingRequest_C_def world_ops Let_def testWorld_def
  testVec_buffer testVec_length decode_testVec same_localhost testRep_correction testRep_uncertainty
  testRep_Sequence responseBinarySize_def new_request_def Earliest_def Time_Add_def Time_Sub_def
  Time_After_def int64_wrap_def minDuration_def maxDuration_def time_Second_def

lemma run2: "fst (WaitUntilAfter_C 2 testClient 10000000 testWorld) = Returned None"
  by (simp add: numeral_2_eq_2 run_eval)

lemma run2_trace: "trace (snd (WaitUntilAfter_C 2 testClient 10000000 testWorld)) =
  [Sent (encode_request (new_request 2719312210)), Deadline 1000000000,
  Obtained \<lparr>Now = 10448087, Uncertainty = 7865143, uncorrectedNow = 10000000, correction = 448087\<rparr>,
  Waited 7417056 False, Sent (encode_request (new_request 2719312210)), Deadline 1020000000,
  Obtained \<lparr>Now = 30448087, Uncertainty = 7865143, uncorrectedNow = 30000000, correction = 448087\<rparr>]"
  by (simp add: numeral_2_eq_2 run_eval)

lemma run2_full:
  "WaitUntilAfter_C 2 testClient 10000000 testWorld
     = (Returned None, snd (WaitUntilAfter_C 2 testClient 10000000 testWorld))"
  using run2 by (simp add: prod_eq_iff)

text \<open>The older loop (text A) keeps its reading in local variables. When it returns
  without error, the last thing it did was a request answered and a reading of the clock
  whose \<^verbatim>\<open>earliest\<close> is after the target; on a reading whose \<^verbatim>\<open>earliest\<close> is not after the
  target it sleeps for the target minus \<^verbatim>\<open>earliest\<close> and runs the loop again, which starts
  with a request.\<close>

lemma WaitUntilAfter_A_success:
  assumes "WaitUntilAfter_A k c t w = (Returned None, w')"
  shows "\<exists>w0 r w1 now. trackingRequest_A c w0 = (Inr r, w1) \<and> time_Now w1 = (now, w')
           \<and> t < Time_Add now (int64_wrap (- uncertainty (Tracking r)))"
  using assms
proof (induction k arbitrary: w)
  case 0
  then show ?case by simp
next
  case (Suc k)
  obtain g w1 where tr: "trackingRequest_A c w = (g, w1)"
    by (cases "trackingRequest_A c w")
  show ?case
  proof (cases g)
    case (Inl e)
    with tr Suc.prems show ?thesis by simp
  next
    case (Inr r)
    obtain now w2 where nw: "time_Now w1 = (now, w2)"
      by (cases "time_Now w1")
    show ?thesis
    proof (cases "t < Time_Add now (int64_wrap (- uncertainty (Tracking r)))")
      case True
      with tr Inr nw Suc.prems have "w' = w2"
        by (simp add: Let_def Time_After_def)
      with tr Inr nw True show ?thesis by blast
    next
      case False
      with tr Inr nw Suc.prems have
        "WaitUntilAfter_A k c t
           (time_Sleep (Time_Sub t (Time_Add now (int64_wrap (- uncertainty (Tracking r))))) w2)
         = (Returned None, w')"
        by (simp add: Let_def Time_After_def)
      from Suc.IH [OF this] show ?thesis .
    qed
  qed
qed

lemma WaitUntilAfter_A_again:
  assumes "trackingRequest_A c w = (Inr r, w1)"
    and "time_Now w1 = (now, w2)"
    and "\<not> t < Time_Add now (int64_wrap (- uncertainty (Tracking r)))"
  shows "WaitUntilAfter_A (Suc k) c t w
           = WaitUntilAfter_A k c t
               (time_Sleep (Time_Sub t (Time_Add now (int64_wrap (- uncertainty (Tracking r))))) w2)"
  using assms by (simp add: Let_def Time_After_def)

text \<open>
  Claim C1. \<^verbatim>\<open>WaitUntilAfter\<close> returns without error only when the reading it obtained
  last has its earliest instant after the target; in every round where the earliest
  instant is not after the target it waits for the target minus that instant and then
  asks the daemon again. For text C: the shape of every run, as above. For text A: what
  a return without error comes after, and what a round does whose reading is not after
  the target.
\<close>

theorem WaitUntilAfter_rounds:
  "(WaitUntilAfter_C k c t w = (res, w') \<longrightarrow>
      (\<exists>rs tl.
           trace w' = trace w
              @ concat (map (\<lambda>(q, dl, r). [Sent q, Deadline dl, Obtained r,
                                            Waited (Time_Sub t (Earliest r)) False]) rs)
              @ tl
         \<and> (\<forall>(q, dl, r) \<in> set rs. Earliest r \<le> t)
         \<and> (res = Running \<and> tl = [] \<and> length rs = k
            \<or> res = Returned None
                \<and> (\<exists>q dl r. tl = [Sent q, Deadline dl, Obtained r] \<and> t < Earliest r)
            \<or> res = Returned (Some ContextCanceled)
                \<and> (\<exists>q dl r. tl = [Sent q, Deadline dl, Obtained r,
                                    Waited (Time_Sub t (Earliest r)) True]
                       \<and> Earliest r \<le> t)
            \<or> (\<exists>e. res = Returned (Some e) \<and> e \<noteq> ContextCanceled
                   \<and> (\<exists>q. tl = [Sent q] \<or> (\<exists>dl. tl = [Sent q, Deadline dl]))))))
   \<and> (WaitUntilAfter_A k c t w = (Returned None, wA) \<longrightarrow>
        (\<exists>w0 r w1 now. trackingRequest_A c w0 = (Inr r, w1) \<and> time_Now w1 = (now, wA)
           \<and> t < Time_Add now (int64_wrap (- uncertainty (Tracking r)))))
   \<and> (trackingRequest_A c w = (Inr rA, w1) \<and> time_Now w1 = (now, w2)
        \<and> \<not> t < Time_Add now (int64_wrap (- uncertainty (Tracking rA))) \<longrightarrow>
        WaitUntilAfter_A (Suc k) c t w
          = WaitUntilAfter_A k c t
              (time_Sleep (Time_Sub t (Time_Add now (int64_wrap (- uncertainty (Tracking rA)))))
                 w2))"
proof (intro conjI impI)
  assume "WaitUntilAfter_C k c t w = (res, w')"
  then show "\<exists>rs tl.
           trace w' = trace w
              @ concat (map (\<lambda>(q, dl, r). [Sent q, Deadline dl, Obtained r,
                                            Waited (Time_Sub t (Earliest r)) False]) rs)
              @ tl
         \<and> (\<forall>(q, dl, r) \<in> set rs. Earliest r \<le> t)
         \<and> (res = Running \<and> tl = [] \<and> length rs = k
            \<or> res = Returned None
                \<and> (\<exists>q dl r. tl = [Sent q, Deadline dl, Obtained r] \<and> t < Earliest r)
            \<or> res = Returned (Some ContextCanceled)
                \<and> (\<exists>q dl r. tl = [Sent q, Deadline dl, Obtained r,
                                    Waited (Time_Sub t (Earliest r)) True]
                       \<and> Earliest r \<le> t)
            \<or> (\<exists>e. res = Returned (Some e) \<and> e \<noteq> ContextCanceled
                   \<and> (\<exists>q. tl = [Sent q] \<or> (\<exists>dl. tl = [Sent q, Deadline dl]))))"
    by (rule WaitUntilAfter_C_run)
next
  assume "WaitUntilAfter_A k c t w = (Returned None, wA)"
  then show "\<exists>w0 r w1 now. trackingRequest_A c w0 = (Inr r, w1) \<and> time_Now w1 = (now, wA)
           \<and> t < Time_Add now (int64_wrap (- uncertainty (Tracking r)))"
    by (rule WaitUntilAfter_A_success)
next
  assume "trackingRequest_A c w = (Inr rA, w1) \<and> time_Now w1 = (now, w2)
        \<and> \<not> t < Time_Add now (int64_wrap (- uncertainty (Tracking rA)))"
  then have "trackingRequest_A c w = (Inr rA, w1)" "time_Now w1 = (now, w2)"
    "\<not> t < Time_Add now (int64_wrap (- uncertainty (Tracking rA)))"
    by simp_all
  then show "WaitUntilAfter_A (Suc k) c t w
          = WaitUntilAfter_A k c t
              (time_Sleep (Time_Sub t (Time_Add now (int64_wrap (- uncertainty (Tracking rA)))))
                 w2)"
    by (rule WaitUntilAfter_A_again)
qed

lemmas run_eval_A = trackingRequest_A_def world_ops Let_def testWorld_def
  testVec_buffer testVec_length decode_testVec same_localhost uncertainty_testRep
  testRep_Sequence new_request_def Time_Add_def Time_Sub_def
  Time_After_def int64_wrap_def minDuration_def maxDuration_def time_Second_def

lemma runA_full:
  "WaitUntilAfter_A 2 testClient 10000000 testWorld
     = (Returned None, snd (WaitUntilAfter_A 2 testClient 10000000 testWorld))"
  by (simp add: prod_eq_iff numeral_2_eq_2 run_eval_A)

lemma runA_trace:
  "trace (snd (WaitUntilAfter_A 2 testClient 10000000 testWorld))
     = [Sent (encode_request (new_request 2719312210)), Deadline 1000000000, Slept 0,
        Sent (encode_request (new_request 2719312210)), Deadline 1020000000]"
  by (simp add: numeral_2_eq_2 run_eval_A)

text \<open>Witness for C1. With the target at 10 ms, text C: the first reading has its
  \<^verbatim>\<open>Earliest()\<close> at 2.582944 ms, the loop waits 7.417056 ms and asks again; the second
  reading is after the target. Text A, whose uncertainty is zero on this reply: the first
  reading is at the target, not after it, the loop sleeps for 0 and asks again.\<close>

theorem WaitUntilAfter_rounds_witness:
  "WaitUntilAfter_C 2 testClient 10000000 testWorld
     = (Returned None, snd (WaitUntilAfter_C 2 testClient 10000000 testWorld))
   \<and> trace (snd (WaitUntilAfter_C 2 testClient 10000000 testWorld))
     = [Sent (encode_request (new_request 2719312210)), Deadline 1000000000,
        Obtained \<lparr>Now = 10448087, Uncertainty = 7865143, uncorrectedNow = 10000000,
                  correction = 448087\<rparr>,
        Waited 7417056 False,
        Sent (encode_request (new_request 2719312210)), Deadline 1020000000,
        Obtained \<lparr>Now = 30448087, Uncertainty = 7865143, uncorrectedNow = 30000000,
                  correction = 448087\<rparr>]
   \<and> (\<exists>rs q dl r.
         trace (snd (WaitUntilAfter_C 2 testClient 10000000 testWorld))
           = trace testWorld
               @ concat (map (\<lambda>(q, dl, r). [Sent q, Deadline dl, Obtained r,
                                             Waited (Time_Sub 10000000 (Earliest r)) False]) rs)
               @ [Sent q, Deadline dl, Obtained r]
         \<and> 10000000 < Earliest r)
   \<and> WaitUntilAfter_A 2 testClient 10000000 testWorld
     = (Returned None, snd (WaitUntilAfter_A 2 testClient 10000000 testWorld))
   \<and> trace (snd (WaitUntilAfter_A 2 testClient 10000000 testWorld))
     = [Sent (encode_request (new_request 2719312210)), Deadline 1000000000, Slept 0,
        Sent (encode_request (new_request 2719312210)), Deadline 1020000000]
   \<and> (\<exists>w0 r w1 now.
         trackingRequest_A testClient w0 = (Inr r, w1)
         \<and> time_Now w1 = (now, snd (WaitUntilAfter_A 2 testClient 10000000 testWorld))
         \<and> 10000000 < Time_Add now (int64_wrap (- uncertainty (Tracking r))))
   \<and> trackingRequest_A testClient testWorld
     = (Inr testRep, snd (trackingRequest_A testClient testWorld))
   \<and> time_Now (snd (trackingRequest_A testClient testWorld))
     = (10000000, snd (time_Now (snd (trackingRequest_A testClient testWorld))))
   \<and> \<not> 10000000 < Time_Add 10000000 (int64_wrap (- uncertainty (Tracking testRep)))
   \<and> WaitUntilAfter_A (Suc 1) testClient 10000000 testWorld
     = WaitUntilAfter_A 1 testClient 10000000
         (time_Sleep
            (Time_Sub 10000000 (Time_Add 10000000 (int64_wrap (- uncertainty (Tracking testRep)))))
            (snd (time_Now (snd (trackingRequest_A testClient testWorld)))))"
proof -
  have s1: "trackingRequest_A testClient testWorld
     = (Inr testRep, snd (trackingRequest_A testClient testWorld))"
    by (simp add: prod_eq_iff run_eval_A)
  have s2: "time_Now (snd (trackingRequest_A testClient testWorld))
     = (10000000, snd (time_Now (snd (trackingRequest_A testClient testWorld))))"
    by (simp add: prod_eq_iff run_eval_A)
  have s3: "\<not> 10000000 < Time_Add 10000000 (int64_wrap (- uncertainty (Tracking testRep)))"
    by (simp add: uncertainty_testRep Time_Add_def int64_wrap_def)
  from WaitUntilAfter_rounds [where k = 1 and c = testClient and t = 10000000
      and w = testWorld and rA = testRep
      and ?w1.0 = "snd (trackingRequest_A testClient testWorld)" and now = 10000000
      and ?w2.0 = "snd (time_Now (snd (trackingRequest_A testClient testWorld)))",
      THEN conjunct2, THEN conjunct2, THEN mp, OF conjI [OF s1 conjI [OF s2 s3]]]
  have s4: "WaitUntilAfter_A (Suc 1) testClient 10000000 testWorld
     = WaitUntilAfter_A 1 testClient 10000000
         (time_Sleep
            (Time_Sub 10000000 (Time_Add 10000000 (int64_wrap (- uncertainty (Tracking testRep)))))
            (snd (time_Now (snd (trackingRequest_A testClient testWorld)))))" .
  note inst = WaitUntilAfter_rounds [where k = 2 and c = testClient and t = 10000000
      and w = testWorld and res = "Returned None"
      and w' = "snd (WaitUntilAfter_C 2 testClient 10000000 testWorld)"
      and wA = "snd (WaitUntilAfter_A 2 testClient 10000000 testWorld)"]
  from inst [THEN conjunct1, THEN mp, OF run2_full]
  have c: "\<exists>rs q dl r.
         trace (snd (WaitUntilAfter_C 2 testClient 10000000 testWorld))
           = trace testWorld
               @ concat (map (\<lambda>(q, dl, r). [Sent q, Deadline dl, Obtained r,
                                             Waited (Time_Sub 10000000 (Earliest r)) False]) rs)
               @ [Sent q, Deadline dl, Obtained r]
         \<and> 10000000 < Earliest r"
    by auto
  from inst [THEN conjunct2, THEN conjunct1, THEN mp, OF runA_full]
  have a: "\<exists>w0 r w1 now.
         trackingRequest_A testClient w0 = (Inr r, w1)
         \<and> time_Now w1 = (now, snd (WaitUntilAfter_A 2 testClient 10000000 testWorld))
         \<and> 10000000 < Time_Add now (int64_wrap (- uncertainty (Tracking r)))"
    by blast
  from c a run2_full run2_trace runA_full runA_trace s1 s2 s3 s4 show ?thesis by (intro conjI)
qed





end
